theory Spec2Isabelle
  imports Main "HOL-Library.Sublist"
begin

section \<open>The virtual console widget of VirtualConsoleComponentRender.js\<close>

text \<open>
  The repository holds two variants of one script: \<^verbatim>\<open>src/VirtualConsoleComponentRender.js\<close>,
  which routes intercepted log calls to a process-wide \<^verbatim>\<open>activeConsoleAppender\<close>, and
  \<^verbatim>\<open>src/unnamed/part_000\<close>, which only buffers them. Apart from that slot (and comments)
  the two files are the same program, so the model below is one development with the
  variant as a parameter.

  JavaScript strings are modelled as \<^typ>\<open>string\<close> (8-bit characters, so Latin-1 text),
  the module-level variables, the browser's \<^verbatim>\<open>localStorage\<close>, the true console and the heap
  of widget objects as one record that every operation takes and returns, and an
  exception that leaves a method as the second component of the method's result.
\<close>

subsection \<open>Values of the host language\<close>

text \<open>
  The script inspects a JavaScript value in three ways only: \<^verbatim>\<open>typeof v === 'object' && v !== null\<close>,
  \<^verbatim>\<open>JSON.stringify(v, null, 2)\<close> and \<^verbatim>\<open>String(v)\<close>. A value other than \<^verbatim>\<open>undefined\<close> is
  therefore represented by the three answers the engine gives for it. \<^verbatim>\<open>JSON.stringify\<close>
  returns text, returns \<^verbatim>\<open>undefined\<close> (a function, a symbol) or throws a TypeError (a
  circular structure, a BigInt). \<^verbatim>\<open>String\<close> returns text or throws a TypeError (an object
  without a usable \<^verbatim>\<open>toString\<close>, such as one created with a null prototype).
\<close>

datatype exn = TypeError string

datatype stringified = Text string | NoText | Throws string

datatype converted = Str string | NoStr string

datatype jsval = Undefined | Value bool stringified converted

fun typeof_object_not_null :: "jsval \<Rightarrow> bool" where
  "typeof_object_not_null Undefined = False"
| "typeof_object_not_null (Value obj js st) = obj"

fun JSON_stringify :: "jsval \<Rightarrow> stringified" where
  "JSON_stringify Undefined = NoText"
| "JSON_stringify (Value obj js st) = js"

fun js_String :: "jsval \<Rightarrow> exn + string" where
  "js_String Undefined = Inr ''undefined''"
| "js_String (Value obj js (Str s)) = Inr s"
| "js_String (Value obj js (NoStr m)) = Inl (TypeError m)"

text \<open>\<^verbatim>\<open>Array.prototype.join\<close> with a separator.\<close>

fun join :: "string \<Rightarrow> string list \<Rightarrow> string" where
  "join sep [] = []"
| "join sep [x] = x"
| "join sep (x # y # ys) = x @ sep @ join sep (y # ys)"

text \<open>
  \<^verbatim>\<open>formatConsoleMessage\<close> (lines 64-75). The callback of \<^verbatim>\<open>map\<close> catches what
  \<^verbatim>\<open>JSON.stringify\<close> throws; what \<^verbatim>\<open>String\<close> throws, in the handler (line 70) or for a value
  that is not an object (line 73), leaves the callback, \<^verbatim>\<open>map\<close> and the function. An
  element for which the callback returns \<^verbatim>\<open>undefined\<close> is joined as the empty string.
\<close>

definition format_arg :: "jsval \<Rightarrow> exn + string" where
  "format_arg arg =
     (if typeof_object_not_null arg then
        (case JSON_stringify arg of
           Text s \<Rightarrow> Inr s
         | NoText \<Rightarrow> Inr []
         | Throws e \<Rightarrow> js_String arg)
      else js_String arg)"

fun map_format :: "jsval list \<Rightarrow> exn + string list" where
  "map_format [] = Inr []"
| "map_format (arg # rest) =
     (case format_arg arg of
        Inl e \<Rightarrow> Inl e
      | Inr s \<Rightarrow> (case map_format rest of Inl e \<Rightarrow> Inl e | Inr ss \<Rightarrow> Inr (s # ss)))"

definition formatConsoleMessage :: "jsval list \<Rightarrow> exn + string" where
  "formatConsoleMessage args =
     (case map_format args of Inl e \<Rightarrow> Inl e | Inr ss \<Rightarrow> Inr (join '' '' ss))"

text \<open>
  \<^verbatim>\<open>String.prototype.trim\<close> and the class \<^verbatim>\<open>\s\<close> of a regular expression remove and match
  the same characters; within Latin-1 these are tab, LF, VT, FF, CR, space and NBSP.
\<close>

definition js_whitespace :: "char \<Rightarrow> bool" where
  "js_whitespace c =
     (c = CHR 0x09 \<or> c = CHR 0x0A \<or> c = CHR 0x0B \<or> c = CHR 0x0C \<or> c = CHR 0x0D \<or>
      c = CHR 0x20 \<or> c = CHR 0xA0)"

definition trim :: "string \<Rightarrow> string" where
  "trim s = rev (dropWhile js_whitespace (rev (dropWhile js_whitespace s)))"

text \<open>The test \<^verbatim>\<open>s.match(/^(let|const|var|function|class)\s/)\<close> of line 429.\<close>

definition declaration_keywords :: "string list" where
  "declaration_keywords = [''let'', ''const'', ''var'', ''function'', ''class'']"

definition matches_declaration :: "string \<Rightarrow> bool" where
  "matches_declaration s =
     list_ex (\<lambda>kw. take (length kw) s = kw \<and>
                   (case drop (length kw) s of [] \<Rightarrow> False | c # rest \<Rightarrow> js_whitespace c))
       declaration_keywords"

subsection \<open>The widget object and the process-wide state\<close>

record logentry =
  timestamp :: string
  type :: string
  message :: string

text \<open>
  The fields of \<^verbatim>\<open>VirtualConsoleComponent\<close> that the methods below read or write. An element
  reference is \<open>None\<close> when \<^verbatim>\<open>querySelector\<close> found nothing; \<open>textarea\<close> and
  \<open>inputElement\<close> hold the element's \<^verbatim>\<open>value\<close>. The evaluation context behind
  \<open>iframeWindow\<close> is a state of type \<open>'c\<close> of the embedded engine. Styling, scrolling,
  focus and the resize observer are left out.
\<close>

record 'c widget =
  textarea :: "string option"
  inputElement :: "string option"
  consoleIframe :: bool
  iframeWindow :: "'c option"
  isConsoleVisible :: bool
  lastKnownWidth :: string
  lastKnownHeight :: string
  inputHistory :: "string list"
  historyIndex :: int
  cumulativeExecutedCode :: string

text \<open>
  \<^verbatim>\<open>this.appendMessage.bind(this)\<close> creates a new function object at every evaluation, and
  \<^verbatim>\<open>===\<close> on functions compares object identity. A bound appender is therefore its
  identity (the number of function objects created before it) and the widget it is bound to.
\<close>

datatype appender = BoundAppend nat nat

fun receiver :: "appender \<Rightarrow> nat" where
  "receiver (BoundAppend i r) = r"

fun identity :: "appender \<Rightarrow> nat" where
  "identity (BoundAppend i r) = i"

text \<open>
  What \<^verbatim>\<open>localStorage\<close> holds under a key: a plain string, or the JSON text of a list of
  strings (\<^verbatim>\<open>JSON.stringify(this.inputHistory)\<close>), kept as the list it encodes.
\<close>

datatype stored = Plain string | HistoryJSON "string list"

text \<open>
  What \<^verbatim>\<open>localStorage.setItem\<close> throws when it throws is a DOMException (the quota is
  exceeded, the store is not accessible): an object, given by the texts
  \<^verbatim>\<open>JSON.stringify\<close> and \<^verbatim>\<open>String\<close> return for it.
\<close>

datatype dom_exception = DOMException string string

fun thrown :: "dom_exception \<Rightarrow> jsval" where
  "thrown (DOMException js st) = Value True (Text js) (Str st)"

datatype variant = VirtualConsoleComponentRender | part_000

text \<open>
  The module-level variables \<open>consoleMessageBuffer\<close> and \<open>activeConsoleAppender\<close>,
  the number of function objects allocated so far, the calls that reached the original
  console functions (\<open>originalLog\<close>, \<open>originalWarn\<close>, \<open>originalError\<close>, by the type
  tag of the wrapper that forwarded), the store, the exception \<^verbatim>\<open>localStorage.setItem\<close>
  throws if it throws, and the widget objects by address.
\<close>

record 'c world =
  consoleMessageBuffer :: "logentry list"
  activeConsoleAppender :: "appender option"
  allocated :: nat
  original_console :: "(string \<times> jsval list) list"
  localStorage :: "string \<rightharpoonup> stored"
  setItem_fault :: "dom_exception option"
  widgets :: "nat \<Rightarrow> 'c widget"

definition on_widget :: "nat \<Rightarrow> ('c widget \<Rightarrow> 'c widget) \<Rightarrow> 'c world \<Rightarrow> 'c world" where
  "on_widget this f g = g\<lparr>widgets := (widgets g)(this := f (widgets g this))\<rparr>"

subsection \<open>appendMessage and the intercepted console\<close>

text \<open>
  The field \<open>textarea\<close> of a widget holds the raw value of the element. Reading
  \<^verbatim>\<open>textarea.value\<close> gives the raw value with its line breaks normalised: every CR LF pair
  and every other CR becomes one LF.
\<close>

fun normalize_newlines :: "string \<Rightarrow> string" where
  "normalize_newlines [] = []"
| "normalize_newlines [c] = [if c = CHR 0x0D then CHR 0x0A else c]"
| "normalize_newlines (c # d # s) =
     (if c = CHR 0x0D then
        CHR 0x0A # (if d = CHR 0x0A then normalize_newlines s else normalize_newlines (d # s))
      else c # normalize_newlines (d # s))"

text \<open>
  \<^verbatim>\<open>appendMessage\<close> (lines 443-450), with the timestamp already read: \<^verbatim>\<open>value += line\<close>
  reads the value and writes it back with the line added.
\<close>

definition render :: "string \<Rightarrow> string \<Rightarrow> string \<Rightarrow> string" where
  "render ts ty msg = ''['' @ ts @ ''] ['' @ ty @ ''] '' @ msg @ [CHR 0x0A]"

definition appendMessage :: "string \<Rightarrow> string \<Rightarrow> string \<Rightarrow> 'c widget \<Rightarrow> 'c widget" where
  "appendMessage msg ty ts w =
     (case textarea w of
        Some t \<Rightarrow> w\<lparr>textarea := Some (normalize_newlines t @ render ts ty msg)\<rparr>
      | None \<Rightarrow> w)"

definition call_appender :: "appender \<Rightarrow> string \<Rightarrow> string \<Rightarrow> string \<Rightarrow> 'c world \<Rightarrow> 'c world" where
  "call_appender f msg ty ts g = on_widget (receiver f) (appendMessage msg ty ts) g"

text \<open>
  The three wrappers of lines 15-56 (lines 13-35 of part_000) differ in the type tag and in
  the original function they forward to; \<open>ts\<close> is the reading of
  \<^verbatim>\<open>new Date().toLocaleTimeString()\<close> the call makes. The message is formatted before the
  entry is routed or pushed and before the call is forwarded, outside any \<^verbatim>\<open>try\<close>: an
  exception of the formatting leaves the wrapper with nothing done. The result is the
  state after the call and the exception that left the wrapper, if one did.
\<close>

definition console_call ::
    "variant \<Rightarrow> string \<Rightarrow> jsval list \<Rightarrow> string \<Rightarrow> 'c world \<Rightarrow> 'c world \<times> exn option" where
  "console_call v ty args ts g =
     (case formatConsoleMessage args of
        Inl e \<Rightarrow> (g, Some e)
      | Inr formattedMessage \<Rightarrow>
          (let messageEntry = \<lparr>timestamp = ts, type = ty, message = formattedMessage\<rparr>;
               g1 = (case v of
                       part_000 \<Rightarrow>
                         g\<lparr>consoleMessageBuffer := consoleMessageBuffer g @ [messageEntry]\<rparr>
                     | VirtualConsoleComponentRender \<Rightarrow>
                         (case activeConsoleAppender g of
                            Some f \<Rightarrow>
                              call_appender f (message messageEntry) (type messageEntry)
                                (timestamp messageEntry) g
                          | None \<Rightarrow>
                              g\<lparr>consoleMessageBuffer :=
                                  consoleMessageBuffer g @ [messageEntry]\<rparr>))
           in (g1\<lparr>original_console := original_console g1 @ [(ty, args)]\<rparr>, None)))"

definition console_log ::
    "variant \<Rightarrow> jsval list \<Rightarrow> string \<Rightarrow> 'c world \<Rightarrow> 'c world \<times> exn option" where
  "console_log v = console_call v ''LOG''"

definition console_warn ::
    "variant \<Rightarrow> jsval list \<Rightarrow> string \<Rightarrow> 'c world \<Rightarrow> 'c world \<times> exn option" where
  "console_warn v = console_call v ''WARN''"

definition console_error ::
    "variant \<Rightarrow> jsval list \<Rightarrow> string \<Rightarrow> 'c world \<Rightarrow> 'c world \<times> exn option" where
  "console_error v = console_call v ''ERROR''"

subsection \<open>Persistent state\<close>

definition HISTORY_KEY :: string where
  "HISTORY_KEY = ''virtualConsoleHistory''"

text \<open>The first argument of the \<^verbatim>\<open>console.error\<close> call of line 316.\<close>

definition write_error_text :: jsval where
  "write_error_text =
     Value False (Text (CHR 0x22 # ''Error al escribir en localStorage:'' @ [CHR 0x22]))
       (Str ''Error al escribir en localStorage:'')"

text \<open>
  \<^verbatim>\<open>setLocalStorageItem\<close> (lines 312-318). When \<^verbatim>\<open>setItem\<close> throws \<open>e\<close>, the handler calls
  the intercepted \<^verbatim>\<open>console.error\<close>, which reads the clock (\<open>ts\<close>). Its two arguments, a
  string and a DOMException, are formatted without \<^verbatim>\<open>String\<close> being applied to an
  object, so this call of the wrapper does not raise and the method returns.
\<close>

definition setLocalStorageItem ::
    "variant \<Rightarrow> string \<Rightarrow> string \<Rightarrow> stored \<Rightarrow> 'c world \<Rightarrow> 'c world" where
  "setLocalStorageItem v ts key val g =
     (case setItem_fault g of
        None \<Rightarrow> g\<lparr>localStorage := (localStorage g)(key \<mapsto> val)\<rparr>
      | Some e \<Rightarrow> fst (console_error v [write_error_text, thrown e] ts g))"

text \<open>
  Lines 404-407 of \<^verbatim>\<open>processInput\<close> and lines 211-214 of \<^verbatim>\<open>navigateHistory\<close> are the same
  statements: push \<open>text\<close> unless it repeats the last entry, and persist the list.
\<close>

definition push_history :: "variant \<Rightarrow> string \<Rightarrow> nat \<Rightarrow> string \<Rightarrow> 'c world \<Rightarrow> 'c world" where
  "push_history v ts this text g =
     (let h = inputHistory (widgets g this) in
      if h = [] \<or> last h \<noteq> text then
        setLocalStorageItem v ts HISTORY_KEY (HistoryJSON (h @ [text]))
          (on_widget this (\<lambda>w. w\<lparr>inputHistory := h @ [text]\<rparr>) g)
      else g)"

subsection \<open>Flushing the buffer\<close>

text \<open>
  \<^verbatim>\<open>flushMessageBuffer\<close> (lines 350-355): while the buffer is not empty, shift its first
  entry and append it to this widget.
\<close>

function flushMessageBuffer :: "nat \<Rightarrow> 'c world \<Rightarrow> 'c world" where
  "flushMessageBuffer this g =
     (case consoleMessageBuffer g of
        [] \<Rightarrow> g
      | entry # rest \<Rightarrow>
          flushMessageBuffer this
            (on_widget this (appendMessage (message entry) (type entry) (timestamp entry))
               (g\<lparr>consoleMessageBuffer := rest\<rparr>)))"
  by pat_completeness auto
termination
  by (relation "measure (\<lambda>(this, g). length (consoleMessageBuffer g))")
     (auto simp: on_widget_def)

declare flushMessageBuffer.simps [simp del]

subsection \<open>The evaluation context\<close>

text \<open>
  \<^verbatim>\<open>iframeWindow.eval(code)\<close> is a capability of the embedded engine: from a context and a
  program text it gives the context afterwards, the messages the context's own console
  wrappers passed to \<^verbatim>\<open>__appendConsoleMessage\<close> while the program ran (message, tag,
  timestamp), and how the evaluation ended. A thrown value \<open>e\<close> is represented by what
  reading \<^verbatim>\<open>e.message\<close> inside a template literal gives: \<open>Some m\<close> for the text \<open>m\<close>, and
  \<open>None\<close> when \<open>e\<close> is \<^verbatim>\<open>null\<close> or \<^verbatim>\<open>undefined\<close>, where the property read itself throws.
\<close>

datatype outcome = Returned jsval | Threw "string option"

type_synonym 'c evaluator = "'c \<Rightarrow> string \<Rightarrow> 'c \<times> (string \<times> string \<times> string) list \<times> outcome"

fun bridge :: "(string \<times> string \<times> string) list \<Rightarrow> 'c widget \<Rightarrow> 'c widget" where
  "bridge [] w = w"
| "bridge ((msg, ty, ts) # ms) w = bridge ms (appendMessage msg ty ts w)"

text \<open>
  \<^verbatim>\<open>setupIframeContext\<close> (lines 236-289), taken up to the resolution of its promise:
  without an iframe element it reports to the original \<^verbatim>\<open>console.error\<close> and changes
  nothing; otherwise the reloaded frame's window, with its console wrappers installed,
  becomes the context (\<open>blank\<close> is the state of a freshly loaded \<^verbatim>\<open>about:blank\<close>).
\<close>

definition iframe_missing_text :: jsval where
  "iframe_missing_text =
     Value False (Text (CHR 0x22 # ''Iframe de consola no encontrado.'' @ [CHR 0x22]))
       (Str ''Iframe de consola no encontrado.'')"

definition setupIframeContext :: "'c \<Rightarrow> nat \<Rightarrow> 'c world \<Rightarrow> 'c world" where
  "setupIframeContext blank this g =
     (if \<not> consoleIframe (widgets g this) then
        g\<lparr>original_console := original_console g @ [(''ERROR'', [iframe_missing_text])]\<rparr>
      else on_widget this (\<lambda>w. w\<lparr>iframeWindow := Some blank\<rparr>) g)"

subsection \<open>Submitting input\<close>

text \<open>
  \<^verbatim>\<open>processInput\<close> (lines 401-435). \<open>tm\<close> gives the clock reading at each place of the
  method that reads the clock: 0 the \<^verbatim>\<open>console.error\<close> of a failed store write, 1 the echo
  of the input, 2 the ERROR line, 3 the OUTPUT line. The result is the state when the
  method ends and the exception that left it, if one did.
\<close>

definition display_result ::
    "string \<Rightarrow> nat \<Rightarrow> string \<Rightarrow> jsval \<Rightarrow> 'c world \<Rightarrow> 'c world \<times> exn option" where
  "display_result ts this input resultToDisplay g =
     (if resultToDisplay \<noteq> Undefined then
        (case JSON_stringify resultToDisplay of
           Throws m \<Rightarrow> (g, Some (TypeError m))
         | Text s \<Rightarrow> (on_widget this (appendMessage (''  < '' @ s) ''OUTPUT'' ts) g, None)
         | NoText \<Rightarrow>
             (on_widget this (appendMessage (''  < '' @ ''undefined'') ''OUTPUT'' ts) g, None))
      else if matches_declaration (trim input) then
        (on_widget this
           (appendMessage (''  < (Declaraci'' @ [CHR 0xF3] @ ''n ejecutada)'') ''OUTPUT'' ts) g,
         None)
      else (on_widget this (appendMessage ''  < (undefined)'' ''OUTPUT'' ts) g, None))"

text \<open>Line 417: the accumulated program, a line feed and the input.\<close>

definition finalCodeToExecute :: "nat \<Rightarrow> string \<Rightarrow> 'c world \<Rightarrow> string" where
  "finalCodeToExecute this input g =
     cumulativeExecutedCode (widgets g this) @ [CHR 0x0A] @ input"

text \<open>Lines 404-409: the history push and the echo of the input.\<close>

definition record_and_echo ::
    "variant \<Rightarrow> (nat \<Rightarrow> string) \<Rightarrow> nat \<Rightarrow> string \<Rightarrow> 'c world \<Rightarrow> 'c world" where
  "record_and_echo v tm this input g =
     on_widget this (appendMessage (''> '' @ input) ''INPUT'' (tm 1))
       (push_history v (tm 0) this (trim input) g)"

definition processInput ::
    "variant \<Rightarrow> 'c evaluator \<Rightarrow> (nat \<Rightarrow> string) \<Rightarrow> nat \<Rightarrow> string \<Rightarrow> 'c world
       \<Rightarrow> 'c world \<times> exn option" where
  "processInput v eval tm this input g =
     (if trim input = [] then (g, None)
      else
        let g2 = record_and_echo v tm this input g in
          (case iframeWindow (widgets g2 this) of
             None \<Rightarrow>
               (on_widget this
                  (appendMessage
                     (''  Error: El contexto de la consola no est'' @ [CHR 0xE1] @ '' listo.'')
                     ''ERROR'' (tm 2)) g2,
                None)
           | Some ctx \<Rightarrow>
               let code = finalCodeToExecute this input g2 in
                 (case eval ctx code of
                    (ctx', emitted, Returned r) \<Rightarrow>
                      display_result (tm 3) this input r
                        (on_widget this
                           (\<lambda>w. (bridge emitted w)
                                  \<lparr>iframeWindow := Some ctx',
                                   cumulativeExecutedCode := code\<rparr>) g2)
                  | (ctx', emitted, Threw None) \<Rightarrow>
                      (on_widget this (\<lambda>w. (bridge emitted w)\<lparr>iframeWindow := Some ctx'\<rparr>) g2,
                       Some (TypeError ''Cannot read properties of null or undefined''))
                  | (ctx', emitted, Threw (Some m)) \<Rightarrow>
                      display_result (tm 3) this input Undefined
                        (on_widget this
                           (\<lambda>w. appendMessage (''  Error: '' @ m) ''ERROR'' (tm 2)
                                  ((bridge emitted w)\<lparr>iframeWindow := Some ctx'\<rparr>)) g2))))"

subsection \<open>History navigation\<close>

text \<open>
  \<^verbatim>\<open>navigateHistory\<close> (lines 207-231). Reading \<^verbatim>\<open>inputHistory[i]\<close> outside the list gives
  \<^verbatim>\<open>undefined\<close>, which the \<^verbatim>\<open>value\<close> setter of an input element turns into text.
\<close>

definition navigateHistory :: "variant \<Rightarrow> string \<Rightarrow> nat \<Rightarrow> int \<Rightarrow> 'c world \<Rightarrow> 'c world" where
  "navigateHistory v ts this direction g =
     (case inputElement (widgets g this) of
        None \<Rightarrow> g
      | Some val \<Rightarrow>
          let g1 = (if direction = - 1
                       \<and> historyIndex (widgets g this) = int (length (inputHistory (widgets g this)))
                       \<and> trim val \<noteq> []
                    then push_history v ts this (trim val) g
                    else g)
          in on_widget this
               (\<lambda>w. let i = historyIndex w + direction;
                         n = int (length (inputHistory w));
                         i' = (if i < 0 then 0 else if i > n then n else i)
                     in if i' = n then w\<lparr>historyIndex := i', inputElement := Some []\<rparr>
                        else w\<lparr>historyIndex := i',
                               inputElement :=
                                 Some (if 0 \<le> i' \<and> nat i' < length (inputHistory w)
                                       then inputHistory w ! nat i' else ''undefined'')\<rparr>)
               g1)"

subsection \<open>Clearing\<close>

text \<open>
  \<^verbatim>\<open>clearConsole\<close> (lines 455-462), with the awaited frame load taken as one step; \<open>ts\<close> is
  the clock reading of the notice.
\<close>

definition clearConsole :: "'c \<Rightarrow> string \<Rightarrow> nat \<Rightarrow> 'c world \<Rightarrow> 'c world" where
  "clearConsole blank ts this g =
     (let g1 = on_widget this
                 (\<lambda>w. (case textarea w of Some t \<Rightarrow> w\<lparr>textarea := Some []\<rparr> | None \<Rightarrow> w)
                        \<lparr>cumulativeExecutedCode := []\<rparr>) g;
          g2 = setupIframeContext blank this g1
      in on_widget this
           (appendMessage
              (''Consola y contexto de ejecuci'' @ [CHR 0xF3] @ ''n limpiados.'') ''SYSTEM'' ts)
           g2)"

subsection \<open>Showing, hiding and saving the size\<close>

definition WIDTH_KEY :: string where
  "WIDTH_KEY = ''virtualConsoleWidth''"

definition HEIGHT_KEY :: string where
  "HEIGHT_KEY = ''virtualConsoleHeight''"

definition VISIBLE_KEY :: string where
  "VISIBLE_KEY = ''virtualConsoleVisible''"

text \<open>
  \<^verbatim>\<open>saveConsoleSize\<close> (lines 323-330), \<^verbatim>\<open>hideConsole\<close> (lines 360-365) and \<^verbatim>\<open>showConsole\<close>
  (lines 370-380), without the styling. \<open>dims\<close> is \<open>None\<close> when the widget has no
  \<^verbatim>\<open>#consoleDisplay\<close>, and otherwise the texts of its \<^verbatim>\<open>offsetWidth\<close> and \<^verbatim>\<open>offsetHeight\<close>
  followed by \<^verbatim>\<open>px\<close>; \<open>tm\<close> gives the clock readings of the store writes in order.
  \<^verbatim>\<open>saveConsoleSize\<close> also runs, debounced, when the container is resized.
\<close>

definition saveConsoleSize ::
    "variant \<Rightarrow> (nat \<Rightarrow> string) \<Rightarrow> (string \<times> string) option \<Rightarrow> 'c world \<Rightarrow> 'c world" where
  "saveConsoleSize v tm dims g =
     (case dims of
        None \<Rightarrow> g
      | Some (actualWidth, actualHeight) \<Rightarrow>
          setLocalStorageItem v (tm 1) HEIGHT_KEY (Plain actualHeight)
            (setLocalStorageItem v (tm 0) WIDTH_KEY (Plain actualWidth) g))"

definition hideConsole ::
    "variant \<Rightarrow> (nat \<Rightarrow> string) \<Rightarrow> (string \<times> string) option \<Rightarrow> nat \<Rightarrow> 'c world \<Rightarrow> 'c world" where
  "hideConsole v tm dims this g =
     saveConsoleSize v (\<lambda>k. tm (Suc k)) dims
       (setLocalStorageItem v (tm 0) VISIBLE_KEY (Plain ''false'')
          (on_widget this (\<lambda>w. w\<lparr>isConsoleVisible := False\<rparr>) g))"

definition showConsole :: "variant \<Rightarrow> string \<Rightarrow> nat \<Rightarrow> 'c world \<Rightarrow> 'c world" where
  "showConsole v ts this g =
     setLocalStorageItem v ts VISIBLE_KEY (Plain ''true'')
       (on_widget this (\<lambda>w. w\<lparr>isConsoleVisible := True\<rparr>) g)"

subsection \<open>Attaching and detaching\<close>

text \<open>
  \<^verbatim>\<open>connectedCallback\<close> (lines 116-189) in its two synchronous stretches. The first loads
  the template (what it holds for \<^verbatim>\<open>#consoleOutput\<close>, \<^verbatim>\<open>#consoleInput\<close> and \<^verbatim>\<open>#consoleIframe\<close>)
  and sets up the context; the second, after the last \<^verbatim>\<open>await\<close>, registers the appender
  (not in part_000) and flushes the buffer. Other events can run between the two.
\<close>

record template =
  consoleOutput :: "string option"
  consoleInput :: "string option"
  has_consoleIframe :: bool

definition connectedCallback_load :: "'c \<Rightarrow> template \<Rightarrow> nat \<Rightarrow> 'c world \<Rightarrow> 'c world" where
  "connectedCallback_load blank tpl this g =
     setupIframeContext blank this
       (on_widget this
          (\<lambda>w. w\<lparr>textarea := consoleOutput tpl, inputElement := consoleInput tpl,
                 consoleIframe := has_consoleIframe tpl\<rparr>) g)"

definition connectedCallback_ready :: "variant \<Rightarrow> nat \<Rightarrow> 'c world \<Rightarrow> 'c world" where
  "connectedCallback_ready v this g =
     (case v of
        VirtualConsoleComponentRender \<Rightarrow>
          flushMessageBuffer this
            (g\<lparr>activeConsoleAppender := Some (BoundAppend (allocated g) this),
               allocated := Suc (allocated g)\<rparr>)
      | part_000 \<Rightarrow> flushMessageBuffer this g)"

definition connectedCallback ::
    "variant \<Rightarrow> 'c \<Rightarrow> template \<Rightarrow> nat \<Rightarrow> 'c world \<Rightarrow> 'c world" where
  "connectedCallback v blank tpl this g =
     connectedCallback_ready v this (connectedCallback_load blank tpl this g)"

text \<open>
  \<^verbatim>\<open>disconnectedCallback\<close> (lines 192-201): the comparison of line 198 evaluates
  \<^verbatim>\<open>this.appendMessage.bind(this)\<close> again, which allocates a function object.
\<close>

definition disconnectedCallback :: "variant \<Rightarrow> nat \<Rightarrow> 'c world \<Rightarrow> 'c world" where
  "disconnectedCallback v this g =
     (case v of
        VirtualConsoleComponentRender \<Rightarrow>
          (let mine = BoundAppend (allocated g) this;
               g1 = g\<lparr>allocated := Suc (allocated g)\<rparr>
           in if activeConsoleAppender g1 = Some mine
              then g1\<lparr>activeConsoleAppender := None\<rparr> else g1)
      | part_000 \<Rightarrow> g)"

subsection \<open>The listeners of the input field\<close>

text \<open>
  The \<^verbatim>\<open>keydown\<close> listener (lines 159-171) and the \<^verbatim>\<open>input\<close> listener (lines 173-177); they
  exist only when the input field does. An exception out of \<^verbatim>\<open>processInput\<close> ends the
  Enter branch before the field is cleared.
\<close>

definition keydown_Enter ::
    "variant \<Rightarrow> 'c evaluator \<Rightarrow> (nat \<Rightarrow> string) \<Rightarrow> nat \<Rightarrow> 'c world \<Rightarrow> 'c world \<times> exn option" where
  "keydown_Enter v eval tm this g =
     (case inputElement (widgets g this) of
        None \<Rightarrow> (g, None)
      | Some val \<Rightarrow>
          (case processInput v eval tm this val g of
             (g1, Some e) \<Rightarrow> (g1, Some e)
           | (g1, None) \<Rightarrow>
               (on_widget this
                  (\<lambda>w. w\<lparr>inputElement := Some [],
                         historyIndex := int (length (inputHistory w))\<rparr>) g1,
                None)))"

definition keydown_ArrowUp :: "variant \<Rightarrow> string \<Rightarrow> nat \<Rightarrow> 'c world \<Rightarrow> 'c world" where
  "keydown_ArrowUp v ts this g =
     (case inputElement (widgets g this) of
        None \<Rightarrow> g
      | Some val \<Rightarrow> navigateHistory v ts this (- 1) g)"

definition keydown_ArrowDown :: "variant \<Rightarrow> string \<Rightarrow> nat \<Rightarrow> 'c world \<Rightarrow> 'c world" where
  "keydown_ArrowDown v ts this g =
     (case inputElement (widgets g this) of
        None \<Rightarrow> g
      | Some val \<Rightarrow> navigateHistory v ts this 1 g)"

definition input_edited :: "string \<Rightarrow> nat \<Rightarrow> 'c world \<Rightarrow> 'c world" where
  "input_edited text this g =
     (case inputElement (widgets g this) of
        None \<Rightarrow> g
      | Some val \<Rightarrow>
          on_widget this
            (\<lambda>w. let h = inputHistory w; i = historyIndex w;
                      shown = (if 0 \<le> i \<and> nat i < length h then Some (h ! nat i) else None)
                  in if i \<noteq> int (length h) \<and> Some text \<noteq> shown
                     then w\<lparr>inputElement := Some text, historyIndex := int (length h)\<rparr>
                     else w\<lparr>inputElement := Some text\<rparr>) g)"

subsection \<open>Callers: log calls and user events in sequence\<close>

text \<open>
  The three intercepted methods by name, the state a log call of the page leaves (an
  exception of the wrapper goes to the caller), and a caller that makes a list of log
  calls, each with its arguments and the clock reading it makes.
\<close>

datatype severity = Log | Warn | Error

fun tag :: "severity \<Rightarrow> string" where
  "tag Log = ''LOG''"
| "tag Warn = ''WARN''"
| "tag Error = ''ERROR''"

fun wrapper ::
    "severity \<Rightarrow> variant \<Rightarrow> jsval list \<Rightarrow> string \<Rightarrow> 'c world \<Rightarrow> 'c world \<times> exn option" where
  "wrapper Log = console_log"
| "wrapper Warn = console_warn"
| "wrapper Error = console_error"

definition console :: "variant \<Rightarrow> severity \<Rightarrow> jsval list \<Rightarrow> string \<Rightarrow> 'c world \<Rightarrow> 'c world" where
  "console v m args ts g = fst (wrapper m v args ts g)"

type_synonym logcall = "severity \<times> jsval list \<times> string"

fun console_calls :: "variant \<Rightarrow> logcall list \<Rightarrow> 'c world \<Rightarrow> 'c world" where
  "console_calls v [] g = g"
| "console_calls v ((m, args, ts) # cs) g = console_calls v cs (console v m args ts g)"

text \<open>
  The events of the page that reach the script after it is loaded: a log call anywhere in
  the host page, a widget's \<^verbatim>\<open>connectedCallback\<close> running to its end, and, on a widget, the
  Enter key (with the engine's behaviour and the clock readings during the submission),
  an arrow key, an edit of the input field, a click on Clear, Hide or Show, a settled
  resize of the container, a log call made inside the evaluation context outside a
  submission (from a timer, say), which the bridge appends to the widget, and the removal
  from the document. An exception that leaves a listener is reported by the browser and
  the page goes on in the state the listener left.
\<close>

datatype arrow = Up | Down

datatype 'c event =
    Console severity "jsval list" string
  | Attach nat 'c template
  | Enter nat "'c evaluator" "nat \<Rightarrow> string"
  | Arrow nat arrow string
  | Edit nat string
  | Clear nat 'c string
  | Hide nat "(string \<times> string) option" "nat \<Rightarrow> string"
  | Show nat string
  | Resized nat "(string \<times> string) option" "nat \<Rightarrow> string"
  | Bridged nat string string string
  | Detach nat



fun step :: "variant \<Rightarrow> 'c event \<Rightarrow> 'c world \<Rightarrow> 'c world" where
  "step v (Console m args ts) g = console v m args ts g"
| "step v (Attach this blank tpl) g = connectedCallback v blank tpl this g"
| "step v (Enter this eval tm) g = fst (keydown_Enter v eval tm this g)"
| "step v (Arrow this Up ts) g = keydown_ArrowUp v ts this g"
| "step v (Arrow this Down ts) g = keydown_ArrowDown v ts this g"
| "step v (Edit this text) g = input_edited text this g"
| "step v (Clear this blank ts) g = clearConsole blank ts this g"
| "step v (Hide this dims tm) g = hideConsole v tm dims this g"
| "step v (Show this ts) g = showConsole v ts this g"
| "step v (Resized this dims tm) g = saveConsoleSize v tm dims g"
| "step v (Bridged this msg ty ts) g = on_widget this (appendMessage msg ty ts) g"
| "step v (Detach this) g = disconnectedCallback v this g"

fun run :: "variant \<Rightarrow> 'c event list \<Rightarrow> 'c world \<Rightarrow> 'c world" where
  "run v [] g = g"
| "run v (e # es) g = run v es (step v e g)"

subsection \<open>Notions used in the statements\<close>

text \<open>A widget changed in its display only.\<close>

definition display_only :: "'c widget \<Rightarrow> 'c widget \<Rightarrow> bool" where
  "display_only w w' = (w' = w\<lparr>textarea := textarea w'\<rparr>)"

text \<open>
  What reading \<^verbatim>\<open>textarea.value\<close> gives for a widget: the text of its display.
\<close>

definition displayed :: "'c widget \<Rightarrow> string option" where
  "displayed w = map_option normalize_newlines (textarea w)"

text \<open>
  A log call whose arguments can be formatted, the entry it creates and what it passes to
  the original function.
\<close>

fun formattable :: "logcall \<Rightarrow> bool" where
  "formattable (m, args, ts) =
     (case formatConsoleMessage args of Inl e \<Rightarrow> False | Inr s \<Rightarrow> True)"

fun entry_of :: "logcall \<Rightarrow> logentry" where
  "entry_of (m, args, ts) =
     \<lparr>timestamp = ts, type = tag m,
      message = (case formatConsoleMessage args of Inl e \<Rightarrow> [] | Inr s \<Rightarrow> s)\<rparr>"

fun forwarded :: "logcall \<Rightarrow> string \<times> jsval list" where
  "forwarded (m, args, ts) = (tag m, args)"


text \<open>The widget after the entries of a list have been appended to it in order.\<close>

fun drain :: "logentry list \<Rightarrow> 'c widget \<Rightarrow> 'c widget" where
  "drain [] w = w"
| "drain (e # es) w = drain es (appendMessage (message e) (type e) (timestamp e) w)"

text \<open>
  The registered appender, if there is one, is a function object that exists: its identity
  is below the number of function objects allocated.
\<close>

definition slot_fresh :: "'c world \<Rightarrow> bool" where
  "slot_fresh g =
     (case activeConsoleAppender g of None \<Rightarrow> True | Some f \<Rightarrow> identity f < allocated g)"

text \<open>The cursor of the history is an index into the list or its length.\<close>

definition cursor_in_range :: "'c widget \<Rightarrow> bool" where
  "cursor_in_range w = (0 \<le> historyIndex w \<and> historyIndex w \<le> int (length (inputHistory w)))"

text \<open>Two worlds that differ at most in the buffer and in what reached the true console.\<close>

definition same_but_logs :: "'c world \<Rightarrow> 'c world \<Rightarrow> bool" where
  "same_but_logs g g' =
     (g' = g\<lparr>consoleMessageBuffer := consoleMessageBuffer g',
             original_console := original_console g'\<rparr>)"

subsection \<open>A concrete run\<close>

text \<open>
  A widget as its constructor leaves it when the store is empty, a world where nothing has
  happened yet, a complete template, and an engine that knows a few programs: the ones
  of the failure-isolation scenario of the specification, a program whose value is a
  self-referential object, \<^verbatim>\<open>throw null\<close>, \<^verbatim>\<open>throw undefined\<close>, and a program that logs
  before it fails. Its context counts the evaluations made in it.
\<close>

definition example_widget :: "nat widget" where
  "example_widget =
     \<lparr>textarea = None, inputElement = None, consoleIframe = False, iframeWindow = None,
      isConsoleVisible = True, lastKnownWidth = ''80vw'', lastKnownHeight = ''25vh'',
      inputHistory = [], historyIndex = 0, cumulativeExecutedCode = []\<rparr>"

definition example_world :: "nat world" where
  "example_world =
     \<lparr>consoleMessageBuffer = [], activeConsoleAppender = None, allocated = 0,
      original_console = [], localStorage = Map.empty, setItem_fault = None,
      widgets = (\<lambda>a. example_widget)\<rparr>"

definition example_template :: template where
  "example_template = \<lparr>consoleOutput = Some [], consoleInput = Some [], has_consoleIframe = True\<rparr>"

definition circular :: jsval where
  "circular =
     Value True (Throws ''Converting circular structure to JSON'') (Str ''[object Object]'')"

definition example_eval :: "nat evaluator" where
  "example_eval ctx code =
     (if code = CHR 0x0A # ''let y = 2;'' then (Suc ctx, [], Returned Undefined)
      else if code = CHR 0x0A # ''let y = 2;'' @ CHR 0x0A # ''y''
        then (Suc ctx, [], Returned (Value False (Text ''2'') (Str ''2'')))
      else if code = CHR 0x0A # ''a = {}; a.self = a'' then (Suc ctx, [], Returned circular)
      else if code = CHR 0x0A # ''throw null'' then (Suc ctx, [], Threw None)
      else if code = CHR 0x0A # ''let y = 2;'' @ CHR 0x0A # ''throw undefined''
        then (Suc ctx, [], Threw None)
      else if code = CHR 0x0A # ''let y = 2;'' @ CHR 0x0A # ''console.log(y); q''
        then (Suc ctx, [(''2'', ''IFRAME_LOG'', ''12:00:09'')], Threw (Some ''q is not defined''))
      else if code = CHR 0x0A # ''let y = 2;'' @ CHR 0x0A # ''let[z]=q''
        then (Suc ctx, [], Threw (Some ''q is not defined''))
      else if code = CHR 0x0A # ''let y = 2;'' @ CHR 0x0A # '' var z = q  ''
        then (Suc ctx, [], Threw (Some ''q is not defined''))
      else (Suc ctx, [], Threw (Some ''Invalid or unexpected token'')))"

definition example_clock :: "nat \<Rightarrow> string" where
  "example_clock k = ''12:00:00''"


text \<open>
  An object created with a null prototype that refers to itself: \<^verbatim>\<open>JSON.stringify\<close> and
  \<^verbatim>\<open>String\<close> both throw for it. And a template without \<^verbatim>\<open>#consoleOutput\<close>.
\<close>

definition hostile :: jsval where
  "hostile =
     Value True (Throws ''Converting circular structure to JSON'')
       (NoStr ''Cannot convert object to primitive value'')"

definition bare_template :: template where
  "bare_template = \<lparr>consoleOutput = None, consoleInput = Some [], has_consoleIframe = True\<rparr>"

definition example_attached :: "nat world" where
  "example_attached =
     connectedCallback VirtualConsoleComponentRender 0 example_template 0 example_world"

definition example_after_first :: "nat world" where
  "example_after_first =
     run VirtualConsoleComponentRender
       [Edit 0 ''let y = 2;'', Enter 0 example_eval example_clock] example_attached"

text \<open>Two log calls of the host page; the second logs a number and a self-referential object.\<close>

definition example_calls :: "logcall list" where
  "example_calls =
     [(Log, [Value False (Text (CHR 0x22 # ''boot'' @ [CHR 0x22])) (Str ''boot'')], ''11:59:58''),
      (Warn, [Value False (Text ''1'') (Str ''1''), circular], ''11:59:59'')]"

text \<open>
  A call that logs a text with a carriage return in it, and the page after a widget whose
  template has no \<^verbatim>\<open>#consoleOutput\<close> was attached.
\<close>

definition example_cr_call :: logcall where
  "example_cr_call =
     (Error,
      [Value False (Text (CHR 0x22 # ''a'' @ [CHR 0x5C] @ ''rb'' @ [CHR 0x22]))
         (Str (''a'' @ [CHR 0x0D] @ ''b''))],
      ''12:00:04'')"






lemma appendMessage_frame [simp]:
  "inputElement (appendMessage m ty ts w) = inputElement w"
  "consoleIframe (appendMessage m ty ts w) = consoleIframe w"
  "iframeWindow (appendMessage m ty ts w) = iframeWindow w"
  "isConsoleVisible (appendMessage m ty ts w) = isConsoleVisible w"
  "lastKnownWidth (appendMessage m ty ts w) = lastKnownWidth w"
  "lastKnownHeight (appendMessage m ty ts w) = lastKnownHeight w"
  "inputHistory (appendMessage m ty ts w) = inputHistory w"
  "historyIndex (appendMessage m ty ts w) = historyIndex w"
  "cumulativeExecutedCode (appendMessage m ty ts w) = cumulativeExecutedCode w"
  by (simp_all add: appendMessage_def split: option.split)

lemma appendMessage_textarea [simp]:
  "textarea (appendMessage m ty ts w) =
     map_option (\<lambda>t. normalize_newlines t @ render ts ty m) (textarea w)"
  by (simp add: appendMessage_def split: option.split)

text \<open>Normalised text holds no CR, and text without CR is not changed.\<close>

lemma normalize_newlines_no_CR: "CHR 0x0D \<notin> set (normalize_newlines s)"
  by (induction s rule: normalize_newlines.induct) auto

lemma normalize_newlines_Cons:
  "CHR 0x0D \<noteq> c \<Longrightarrow> normalize_newlines (c # s) = c # normalize_newlines s"
  by (cases s) auto

lemma normalize_newlines_append:
  "CHR 0x0D \<notin> set a \<Longrightarrow> normalize_newlines (a @ b) = a @ normalize_newlines b"
  by (induction a) (simp_all add: normalize_newlines_Cons)

lemma normalize_newlines_after:
  "normalize_newlines (normalize_newlines a @ b) = normalize_newlines a @ normalize_newlines b"
  by (simp add: normalize_newlines_append normalize_newlines_no_CR)

lemma normalize_newlines_idem [simp]:
  "normalize_newlines (normalize_newlines a) = normalize_newlines a"
  using normalize_newlines_after [of a "[]"] by simp

lemma displayed_appendMessage:
  "displayed (appendMessage m ty ts w) =
     map_option (\<lambda>t. t @ normalize_newlines (render ts ty m)) (displayed w)"
  by (cases "textarea w") (simp_all add: displayed_def normalize_newlines_after)

lemma displayed_update [simp]:
  "displayed (w\<lparr>inputElement := a\<rparr>) = displayed w"
  "displayed (w\<lparr>consoleIframe := b\<rparr>) = displayed w"
  "displayed (w\<lparr>iframeWindow := c\<rparr>) = displayed w"
  "displayed (w\<lparr>isConsoleVisible := d\<rparr>) = displayed w"
  "displayed (w\<lparr>inputHistory := e\<rparr>) = displayed w"
  "displayed (w\<lparr>historyIndex := i\<rparr>) = displayed w"
  "displayed (w\<lparr>cumulativeExecutedCode := p\<rparr>) = displayed w"
  by (simp_all add: displayed_def)

lemma bridge_frame [simp]:
  "inputElement (bridge ms w) = inputElement w"
  "consoleIframe (bridge ms w) = consoleIframe w"
  "iframeWindow (bridge ms w) = iframeWindow w"
  "isConsoleVisible (bridge ms w) = isConsoleVisible w"
  "lastKnownWidth (bridge ms w) = lastKnownWidth w"
  "lastKnownHeight (bridge ms w) = lastKnownHeight w"
  "inputHistory (bridge ms w) = inputHistory w"
  "historyIndex (bridge ms w) = historyIndex w"
  "cumulativeExecutedCode (bridge ms w) = cumulativeExecutedCode w"
  by (induction ms w rule: bridge.induct; simp)+

lemma displayed_bridge:
  "displayed (bridge ms w) =
     map_option
       (\<lambda>t. t @ concat (map (\<lambda>(msg, ty, ts). normalize_newlines (render ts ty msg)) ms))
       (displayed w)"
  by (induction ms w rule: bridge.induct)
     (auto simp: displayed_appendMessage option.map_comp comp_def option.map_ident)

lemma on_widget_sel [simp]:
  "widgets (on_widget this f g) x = (if x = this then f (widgets g this) else widgets g x)"
  "consoleMessageBuffer (on_widget this f g) = consoleMessageBuffer g"
  "activeConsoleAppender (on_widget this f g) = activeConsoleAppender g"
  "allocated (on_widget this f g) = allocated g"
  "original_console (on_widget this f g) = original_console g"
  "localStorage (on_widget this f g) = localStorage g"
  "setItem_fault (on_widget this f g) = setItem_fault g"
  by (simp_all add: on_widget_def)

lemma display_only_refl [simp]: "display_only w w"
  by (simp add: display_only_def)

lemma display_only_appendMessage [simp]: "display_only w (appendMessage m ty ts w)"
  by (simp add: display_only_def appendMessage_def split: option.split)

lemma display_only_frame:
  assumes "display_only w w'"
  shows "inputElement w' = inputElement w" "consoleIframe w' = consoleIframe w"
    "iframeWindow w' = iframeWindow w" "isConsoleVisible w' = isConsoleVisible w"
    "lastKnownWidth w' = lastKnownWidth w" "lastKnownHeight w' = lastKnownHeight w"
    "inputHistory w' = inputHistory w" "historyIndex w' = historyIndex w"
    "cumulativeExecutedCode w' = cumulativeExecutedCode w"
proof -
  from assms obtain t where "w' = w\<lparr>textarea := t\<rparr>"
    unfolding display_only_def by blast
  then show "inputElement w' = inputElement w" "consoleIframe w' = consoleIframe w"
    "iframeWindow w' = iframeWindow w" "isConsoleVisible w' = isConsoleVisible w"
    "lastKnownWidth w' = lastKnownWidth w" "lastKnownHeight w' = lastKnownHeight w"
    "inputHistory w' = inputHistory w" "historyIndex w' = historyIndex w"
    "cumulativeExecutedCode w' = cumulativeExecutedCode w"
    by simp_all
qed

lemma console_call_widgets:
  "display_only (widgets g x) (widgets (fst (console_call v ty args ts g)) x)"
  by (cases v; simp add: console_call_def call_appender_def Let_def split: option.split sum.split)

lemma console_call_sel [simp]:
  "activeConsoleAppender (fst (console_call v ty args ts g)) = activeConsoleAppender g"
  "allocated (fst (console_call v ty args ts g)) = allocated g"
  "localStorage (fst (console_call v ty args ts g)) = localStorage g"
  "setItem_fault (fst (console_call v ty args ts g)) = setItem_fault g"
  by (cases v; simp add: console_call_def call_appender_def Let_def
        split: option.split sum.split)+

text \<open>The call of the wrapper in \<^verbatim>\<open>setLocalStorageItem\<close> does not raise.\<close>

lemma format_write_error:
  "formatConsoleMessage [write_error_text, thrown e] =
     Inr (''Error al escribir en localStorage: '' @ (case e of DOMException js st \<Rightarrow> js))"
  by (cases e) (simp add: formatConsoleMessage_def format_arg_def write_error_text_def)

lemma console_error_write_error:
  "snd (console_error v [write_error_text, thrown e] ts g) = None"
  by (simp add: console_error_def console_call_def format_write_error Let_def)

lemma setLocalStorageItem_widgets:
  "display_only (widgets g x) (widgets (setLocalStorageItem v ts key val g) x)"
  by (simp add: setLocalStorageItem_def console_error_def console_call_widgets split: option.split)

lemma setLocalStorageItem_sel [simp]:
  "activeConsoleAppender (setLocalStorageItem v ts key val g) = activeConsoleAppender g"
  "allocated (setLocalStorageItem v ts key val g) = allocated g"
  "setItem_fault (setLocalStorageItem v ts key val g) = setItem_fault g"
  by (simp_all add: setLocalStorageItem_def console_error_def split: option.split)



lemmas console_call_frame [simp] = display_only_frame [OF console_call_widgets]

lemmas setLocalStorageItem_frame [simp] = display_only_frame [OF setLocalStorageItem_widgets]

lemma push_history_sel [simp]:
  "activeConsoleAppender (push_history v ts this text g) = activeConsoleAppender g"
  "allocated (push_history v ts this text g) = allocated g"
  "setItem_fault (push_history v ts this text g) = setItem_fault g"
  by (simp_all add: push_history_def Let_def)

lemma push_history_frame [simp]:
  "inputElement (widgets (push_history v ts this text g) x) = inputElement (widgets g x)"
  "consoleIframe (widgets (push_history v ts this text g) x) = consoleIframe (widgets g x)"
  "iframeWindow (widgets (push_history v ts this text g) x) = iframeWindow (widgets g x)"
  "isConsoleVisible (widgets (push_history v ts this text g) x) = isConsoleVisible (widgets g x)"
  "lastKnownWidth (widgets (push_history v ts this text g) x) = lastKnownWidth (widgets g x)"
  "lastKnownHeight (widgets (push_history v ts this text g) x) = lastKnownHeight (widgets g x)"
  "historyIndex (widgets (push_history v ts this text g) x) = historyIndex (widgets g x)"
  "cumulativeExecutedCode (widgets (push_history v ts this text g) x) =
     cumulativeExecutedCode (widgets g x)"
  by (simp_all add: push_history_def Let_def)

lemma push_history_inputHistory:
  "inputHistory (widgets (push_history v ts this text g) this) =
     (if inputHistory (widgets g this) = [] \<or> last (inputHistory (widgets g this)) \<noteq> text
      then inputHistory (widgets g this) @ [text] else inputHistory (widgets g this))"
  by (simp add: push_history_def Let_def)

lemma push_history_inputHistory_other:
  "x \<noteq> this \<Longrightarrow>
   inputHistory (widgets (push_history v ts this text g) x) = inputHistory (widgets g x)"
  by (simp add: push_history_def Let_def)


lemma record_and_echo_frame [simp]:
  "inputElement (widgets (record_and_echo v tm this input g) x) = inputElement (widgets g x)"
  "consoleIframe (widgets (record_and_echo v tm this input g) x) = consoleIframe (widgets g x)"
  "iframeWindow (widgets (record_and_echo v tm this input g) x) = iframeWindow (widgets g x)"
  "isConsoleVisible (widgets (record_and_echo v tm this input g) x) =
     isConsoleVisible (widgets g x)"
  "lastKnownWidth (widgets (record_and_echo v tm this input g) x) = lastKnownWidth (widgets g x)"
  "lastKnownHeight (widgets (record_and_echo v tm this input g) x) =
     lastKnownHeight (widgets g x)"
  "historyIndex (widgets (record_and_echo v tm this input g) x) = historyIndex (widgets g x)"
  "cumulativeExecutedCode (widgets (record_and_echo v tm this input g) x) =
     cumulativeExecutedCode (widgets g x)"
  by (simp_all add: record_and_echo_def)

lemma record_and_echo_sel [simp]:
  "activeConsoleAppender (record_and_echo v tm this input g) = activeConsoleAppender g"
  "allocated (record_and_echo v tm this input g) = allocated g"
  "setItem_fault (record_and_echo v tm this input g) = setItem_fault g"
  by (simp_all add: record_and_echo_def)

lemma record_and_echo_inputHistory:
  "inputHistory (widgets (record_and_echo v tm this input g) this) =
     (if inputHistory (widgets g this) = [] \<or> last (inputHistory (widgets g this)) \<noteq> trim input
      then inputHistory (widgets g this) @ [trim input] else inputHistory (widgets g this))"
  by (simp add: record_and_echo_def push_history_inputHistory)

lemma finalCodeToExecute_echo [simp]:
  "finalCodeToExecute this input' (record_and_echo v tm this input g) =
     finalCodeToExecute this input' g"
  by (simp add: finalCodeToExecute_def)


lemma display_result_widgets:
  "display_only (widgets g x) (widgets (fst (display_result ts this input r g)) x)"
  by (simp add: display_result_def split: stringified.split)

lemmas display_result_frame [simp] = display_only_frame [OF display_result_widgets]

lemma display_result_sel [simp]:
  "consoleMessageBuffer (fst (display_result ts this input r g)) = consoleMessageBuffer g"
  "activeConsoleAppender (fst (display_result ts this input r g)) = activeConsoleAppender g"
  "allocated (fst (display_result ts this input r g)) = allocated g"
  "original_console (fst (display_result ts this input r g)) = original_console g"
  "localStorage (fst (display_result ts this input r g)) = localStorage g"
  "setItem_fault (fst (display_result ts this input r g)) = setItem_fault g"
  by (simp_all add: display_result_def split: stringified.split)




lemma processInput_Threw_nullish:
  assumes "trim input \<noteq> []" and "iframeWindow (widgets g this) = Some ctx"
    and "eval ctx (finalCodeToExecute this input g) = (ctx', emitted, Threw None)"
  shows "processInput v eval tm this input g =
     (on_widget this (\<lambda>w. (bridge emitted w)\<lparr>iframeWindow := Some ctx'\<rparr>)
        (record_and_echo v tm this input g),
      Some (TypeError ''Cannot read properties of null or undefined''))"
  using assms by (simp add: processInput_def Let_def)

lemma processInput_no_context:
  assumes "trim input \<noteq> []" and "iframeWindow (widgets g this) = None"
  shows "processInput v eval tm this input g =
     (on_widget this
        (appendMessage
           (''  Error: El contexto de la consola no est'' @ [CHR 0xE1] @ '' listo.'')
           ''ERROR'' (tm 2)) (record_and_echo v tm this input g), None)"
  using assms by (simp add: processInput_def Let_def)


lemma processInput_blank: "trim input = [] \<Longrightarrow> processInput v eval tm this input g = (g, None)"
  by (simp add: processInput_def)

lemma processInput_inputHistory:
  "trim input \<noteq> [] \<Longrightarrow>
   inputHistory (widgets (fst (processInput v eval tm this input g)) this) =
     inputHistory (widgets (record_and_echo v tm this input g) this)"
  by (simp add: processInput_def Let_def split: option.split prod.split outcome.split)

lemma processInput_localStorage:
  "trim input \<noteq> [] \<Longrightarrow>
   localStorage (fst (processInput v eval tm this input g)) =
     localStorage (record_and_echo v tm this input g)"
  by (simp add: processInput_def Let_def split: option.split prod.split outcome.split)

lemma push_history_localStorage:
  "setItem_fault g = None \<Longrightarrow>
   localStorage (push_history v ts this text g) =
     (if inputHistory (widgets g this) = [] \<or> last (inputHistory (widgets g this)) \<noteq> text
      then (localStorage g)(HISTORY_KEY \<mapsto> HistoryJSON (inputHistory (widgets g this) @ [text]))
      else localStorage g)"
  by (simp add: push_history_def Let_def setLocalStorageItem_def)

lemma record_and_echo_localStorage [simp]:
  "localStorage (record_and_echo v tm this input g) =
     localStorage (push_history v (tm 0) this (trim input) g)"
  by (simp add: record_and_echo_def)


lemma setupIframeContext_frame [simp]:
  "textarea (widgets (setupIframeContext blank this g) x) = textarea (widgets g x)"
  "inputElement (widgets (setupIframeContext blank this g) x) = inputElement (widgets g x)"
  "consoleIframe (widgets (setupIframeContext blank this g) x) = consoleIframe (widgets g x)"
  "isConsoleVisible (widgets (setupIframeContext blank this g) x) = isConsoleVisible (widgets g x)"
  "lastKnownWidth (widgets (setupIframeContext blank this g) x) = lastKnownWidth (widgets g x)"
  "lastKnownHeight (widgets (setupIframeContext blank this g) x) = lastKnownHeight (widgets g x)"
  "inputHistory (widgets (setupIframeContext blank this g) x) = inputHistory (widgets g x)"
  "historyIndex (widgets (setupIframeContext blank this g) x) = historyIndex (widgets g x)"
  "cumulativeExecutedCode (widgets (setupIframeContext blank this g) x) =
     cumulativeExecutedCode (widgets g x)"
  by (simp_all add: setupIframeContext_def)

lemma setupIframeContext_sel [simp]:
  "consoleMessageBuffer (setupIframeContext blank this g) = consoleMessageBuffer g"
  "activeConsoleAppender (setupIframeContext blank this g) = activeConsoleAppender g"
  "allocated (setupIframeContext blank this g) = allocated g"
  "localStorage (setupIframeContext blank this g) = localStorage g"
  "setItem_fault (setupIframeContext blank this g) = setItem_fault g"
  by (simp_all add: setupIframeContext_def)


lemma flush_Nil: "consoleMessageBuffer g = [] \<Longrightarrow> flushMessageBuffer this g = g"
  by (subst flushMessageBuffer.simps) simp

lemma flush_Cons:
  "consoleMessageBuffer g = entry # rest \<Longrightarrow>
   flushMessageBuffer this g =
     flushMessageBuffer this
       (on_widget this (appendMessage (message entry) (type entry) (timestamp entry))
          (g\<lparr>consoleMessageBuffer := rest\<rparr>))"
  by (subst flushMessageBuffer.simps) simp

text \<open>What the loop leaves: nothing in the buffer, and on this widget the entries in order.\<close>

lemma flushMessageBuffer_eq:
  "consoleMessageBuffer g = es \<Longrightarrow>
   flushMessageBuffer this g = on_widget this (drain es) (g\<lparr>consoleMessageBuffer := []\<rparr>)"
proof (induction es arbitrary: g)
  case Nil
  then show ?case by (simp add: flush_Nil on_widget_def)
next
  case (Cons e es)
  let ?g = "on_widget this (appendMessage (message e) (type e) (timestamp e))
              (g\<lparr>consoleMessageBuffer := es\<rparr>)"
  have "consoleMessageBuffer ?g = es" by simp
  from Cons.IH [OF this] Cons.prems show ?case
    by (simp add: flush_Cons [of g e es] on_widget_def)
qed

lemma drain_frame [simp]:
  "inputElement (drain es w) = inputElement w"
  "consoleIframe (drain es w) = consoleIframe w"
  "iframeWindow (drain es w) = iframeWindow w"
  "isConsoleVisible (drain es w) = isConsoleVisible w"
  "lastKnownWidth (drain es w) = lastKnownWidth w"
  "lastKnownHeight (drain es w) = lastKnownHeight w"
  "inputHistory (drain es w) = inputHistory w"
  "historyIndex (drain es w) = historyIndex w"
  "cumulativeExecutedCode (drain es w) = cumulativeExecutedCode w"
  by (induction es arbitrary: w; simp)+

lemma displayed_drain:
  "displayed (drain es w) =
     map_option
       (\<lambda>t. t @ concat (map (\<lambda>e. normalize_newlines
                                      (render (timestamp e) (type e) (message e))) es))
       (displayed w)"
  by (induction es arbitrary: w)
     (auto simp: displayed_appendMessage option.map_comp comp_def option.map_ident)


lemma flushMessageBuffer_sel [simp]:
  "consoleMessageBuffer (flushMessageBuffer this g) = []"
  "activeConsoleAppender (flushMessageBuffer this g) = activeConsoleAppender g"
  "allocated (flushMessageBuffer this g) = allocated g"
  "original_console (flushMessageBuffer this g) = original_console g"
  "localStorage (flushMessageBuffer this g) = localStorage g"
  "setItem_fault (flushMessageBuffer this g) = setItem_fault g"
  by (simp_all add: flushMessageBuffer_eq [OF refl])

lemma flushMessageBuffer_widgets:
  "widgets (flushMessageBuffer this g) x =
     (if x = this then drain (consoleMessageBuffer g) (widgets g this) else widgets g x)"
  by (simp add: flushMessageBuffer_eq [OF refl])

text \<open>One intercepted call.\<close>

lemma wrapper_eq: "wrapper m v args ts g = console_call v (tag m) args ts g"
  by (cases m) (simp_all add: console_log_def console_warn_def console_error_def)

lemma console_eq: "console v m args ts g = fst (console_call v (tag m) args ts g)"
  by (simp add: console_def wrapper_eq)

lemma formattableE:
  assumes "formattable (m, args, ts)"
  obtains s where "formatConsoleMessage args = Inr s" and "message (entry_of (m, args, ts)) = s"
  using assms by (cases "formatConsoleMessage args") simp_all



lemma console_buffered:
  assumes "formattable (m, args, ts)" and "v = part_000 \<or> activeConsoleAppender g = None"
  shows "console v m args ts g =
     g\<lparr>consoleMessageBuffer := consoleMessageBuffer g @ [entry_of (m, args, ts)],
       original_console := original_console g @ [forwarded (m, args, ts)]\<rparr>"
  using assms(2) by (rule disjE; cases v; insert assms(1); elim formattableE)
    (simp_all add: console_eq console_call_def Let_def)

lemma console_routed:
  assumes "formattable (m, args, ts)" and "activeConsoleAppender g = Some f"
  shows "console VirtualConsoleComponentRender m args ts g =
     (on_widget (receiver f)
        (appendMessage (message (entry_of (m, args, ts))) (tag m) ts) g)
       \<lparr>original_console := original_console g @ [forwarded (m, args, ts)]\<rparr>"
  using assms(1)
  by (elim formattableE) (simp add: console_eq console_call_def Let_def call_appender_def assms(2))

lemma console_calls_append:
  "console_calls v (cs @ ds) g = console_calls v ds (console_calls v cs g)"
  by (induction cs arbitrary: g) auto

lemma console_calls_buffered:
  "\<forall>c \<in> set cs. formattable c \<Longrightarrow> v = part_000 \<or> activeConsoleAppender g = None \<Longrightarrow>
   console_calls v cs g =
     g\<lparr>consoleMessageBuffer := consoleMessageBuffer g @ map entry_of cs,
       original_console := original_console g @ map forwarded cs\<rparr>"
proof (induction cs arbitrary: g)
  case Nil
  then show ?case by simp
next
  case (Cons c cs)
  obtain m args ts where c: "c = (m, args, ts)" by (cases c)
  let ?g = "console v m args ts g"
  from Cons.prems(1) have f: "formattable (m, args, ts)" and rest: "\<forall>c \<in> set cs. formattable c"
    by (simp_all add: c)
  have g: "?g = g\<lparr>consoleMessageBuffer := consoleMessageBuffer g @ [entry_of (m, args, ts)],
       original_console := original_console g @ [forwarded (m, args, ts)]\<rparr>"
    using f Cons.prems(2) by (rule console_buffered)
  then have "v = part_000 \<or> activeConsoleAppender ?g = None"
    using Cons.prems(2) by simp
  from Cons.IH [OF rest this] show ?case
    by (simp add: c g)
qed


lemma connectedCallback_load_sel [simp]:
  "consoleMessageBuffer (connectedCallback_load blank tpl this g) = consoleMessageBuffer g"
  "activeConsoleAppender (connectedCallback_load blank tpl this g) = activeConsoleAppender g"
  "allocated (connectedCallback_load blank tpl this g) = allocated g"
  "localStorage (connectedCallback_load blank tpl this g) = localStorage g"
  "setItem_fault (connectedCallback_load blank tpl this g) = setItem_fault g"
  by (simp_all add: connectedCallback_load_def)

lemma connectedCallback_load_textarea [simp]:
  "textarea (widgets (connectedCallback_load blank tpl this g) this) = consoleOutput tpl"
  by (simp add: connectedCallback_load_def)

lemma connectedCallback_ready_registers:
  "activeConsoleAppender (connectedCallback_ready VirtualConsoleComponentRender this g) =
     Some (BoundAppend (allocated g) this)"
  by (simp add: connectedCallback_ready_def)

lemma connectedCallback_ready_widgets:
  "widgets (connectedCallback_ready v this g) x =
     (if x = this then drain (consoleMessageBuffer g) (widgets g this) else widgets g x)"
  by (cases v) (simp_all add: connectedCallback_ready_def flushMessageBuffer_widgets)

lemma connectedCallback_ready_displayed:
  "displayed (widgets (connectedCallback_ready v this g) this) =
     map_option
       (\<lambda>t. t @ concat (map (\<lambda>e. normalize_newlines
                                      (render (timestamp e) (type e) (message e)))
                           (consoleMessageBuffer g)))
       (displayed (widgets g this))"
  by (simp add: connectedCallback_ready_widgets displayed_drain)

lemma connectedCallback_ready_buffer [simp]:
  "consoleMessageBuffer (connectedCallback_ready v this g) = []"
  by (cases v) (simp_all add: connectedCallback_ready_def)


lemma connectedCallback_ready_sel [simp]:
  "original_console (connectedCallback_ready v this g) = original_console g"
  "localStorage (connectedCallback_ready v this g) = localStorage g"
  "setItem_fault (connectedCallback_ready v this g) = setItem_fault g"
  by (cases v; simp add: connectedCallback_ready_def)+

lemma processInput_sel [simp]:
  "activeConsoleAppender (fst (processInput v eval tm this input g)) = activeConsoleAppender g"
  "allocated (fst (processInput v eval tm this input g)) = allocated g"
  "setItem_fault (fst (processInput v eval tm this input g)) = setItem_fault g"
  by (simp_all add: processInput_def Let_def split: option.split prod.split outcome.split)

lemma keydown_Enter_fst:
  "fst (keydown_Enter v eval tm this g) =
     (case inputElement (widgets g this) of
        None \<Rightarrow> g
      | Some val \<Rightarrow>
          (case snd (processInput v eval tm this val g) of
             Some e \<Rightarrow> fst (processInput v eval tm this val g)
           | None \<Rightarrow>
               on_widget this
                 (\<lambda>w. w\<lparr>inputElement := Some [],
                        historyIndex := int (length (inputHistory w))\<rparr>)
                 (fst (processInput v eval tm this val g))))"
  by (simp add: keydown_Enter_def split: option.split prod.split)

lemma keydown_Enter_sel [simp]:
  "activeConsoleAppender (fst (keydown_Enter v eval tm this g)) = activeConsoleAppender g"
  "allocated (fst (keydown_Enter v eval tm this g)) = allocated g"
  "setItem_fault (fst (keydown_Enter v eval tm this g)) = setItem_fault g"
  by (simp_all add: keydown_Enter_fst split: option.split)

lemma navigateHistory_sel [simp]:
  "activeConsoleAppender (navigateHistory v ts this d g) = activeConsoleAppender g"
  "allocated (navigateHistory v ts this d g) = allocated g"
  "setItem_fault (navigateHistory v ts this d g) = setItem_fault g"
  by (simp_all add: navigateHistory_def Let_def split: option.split)

lemma keydown_Arrow_sel [simp]:
  "activeConsoleAppender (keydown_ArrowUp v ts this g) = activeConsoleAppender g"
  "allocated (keydown_ArrowUp v ts this g) = allocated g"
  "setItem_fault (keydown_ArrowUp v ts this g) = setItem_fault g"
  "activeConsoleAppender (keydown_ArrowDown v ts this g) = activeConsoleAppender g"
  "allocated (keydown_ArrowDown v ts this g) = allocated g"
  "setItem_fault (keydown_ArrowDown v ts this g) = setItem_fault g"
  by (simp_all add: keydown_ArrowUp_def keydown_ArrowDown_def split: option.split)

lemma input_edited_sel [simp]:
  "consoleMessageBuffer (input_edited text this g) = consoleMessageBuffer g"
  "activeConsoleAppender (input_edited text this g) = activeConsoleAppender g"
  "allocated (input_edited text this g) = allocated g"
  "original_console (input_edited text this g) = original_console g"
  "localStorage (input_edited text this g) = localStorage g"
  "setItem_fault (input_edited text this g) = setItem_fault g"
  by (simp_all add: input_edited_def split: option.split)

lemma clearConsole_sel [simp]:
  "consoleMessageBuffer (clearConsole blank ts this g) = consoleMessageBuffer g"
  "activeConsoleAppender (clearConsole blank ts this g) = activeConsoleAppender g"
  "allocated (clearConsole blank ts this g) = allocated g"
  "localStorage (clearConsole blank ts this g) = localStorage g"
  "setItem_fault (clearConsole blank ts this g) = setItem_fault g"
  by (simp_all add: clearConsole_def Let_def)

lemma console_sel [simp]:
  "activeConsoleAppender (console v m args ts g) = activeConsoleAppender g"
  "allocated (console v m args ts g) = allocated g"
  "localStorage (console v m args ts g) = localStorage g"
  "setItem_fault (console v m args ts g) = setItem_fault g"
  by (simp_all add: console_eq)

lemma saveConsoleSize_sel [simp]:
  "activeConsoleAppender (saveConsoleSize v tm dims g) = activeConsoleAppender g"
  "allocated (saveConsoleSize v tm dims g) = allocated g"
  "setItem_fault (saveConsoleSize v tm dims g) = setItem_fault g"
  by (simp_all add: saveConsoleSize_def split: option.split prod.split)

lemma saveConsoleSize_widgets:
  "display_only (widgets g x) (widgets (saveConsoleSize v tm dims g) x)"
proof (cases dims)
  case None
  then show ?thesis by (simp add: saveConsoleSize_def)
next
  case (Some wh)
  obtain a b where wh: "wh = (a, b)" by (cases wh)
  let ?g = "setLocalStorageItem v (tm 0) WIDTH_KEY (Plain a) g"
  have "display_only (widgets g x) (widgets ?g x)"
    by (rule setLocalStorageItem_widgets)
  moreover have "display_only (widgets ?g x)
      (widgets (setLocalStorageItem v (tm 1) HEIGHT_KEY (Plain b) ?g) x)"
    by (rule setLocalStorageItem_widgets)
  ultimately show ?thesis
    by (simp add: saveConsoleSize_def Some wh display_only_def)
qed

lemmas saveConsoleSize_frame [simp] = display_only_frame [OF saveConsoleSize_widgets]

lemma hideConsole_sel [simp]:
  "activeConsoleAppender (hideConsole v tm dims this g) = activeConsoleAppender g"
  "allocated (hideConsole v tm dims this g) = allocated g"
  "setItem_fault (hideConsole v tm dims this g) = setItem_fault g"
  by (simp_all add: hideConsole_def)

lemma hideConsole_history [simp]:
  "inputHistory (widgets (hideConsole v tm dims this g) x) = inputHistory (widgets g x)"
  "historyIndex (widgets (hideConsole v tm dims this g) x) = historyIndex (widgets g x)"
  by (simp_all add: hideConsole_def)

lemma showConsole_sel [simp]:
  "activeConsoleAppender (showConsole v ts this g) = activeConsoleAppender g"
  "allocated (showConsole v ts this g) = allocated g"
  "setItem_fault (showConsole v ts this g) = setItem_fault g"
  by (simp_all add: showConsole_def)

lemma showConsole_history [simp]:
  "inputHistory (widgets (showConsole v ts this g) x) = inputHistory (widgets g x)"
  "historyIndex (widgets (showConsole v ts this g) x) = historyIndex (widgets g x)"
  by (simp_all add: showConsole_def)

text \<open>The comparison of line 198 fails whenever the registered appender exists already.\<close>

lemma disconnectedCallback_slot:
  "slot_fresh g \<Longrightarrow>
   activeConsoleAppender (disconnectedCallback v this g) = activeConsoleAppender g"
  by (cases v; cases "activeConsoleAppender g")
     (auto simp: disconnectedCallback_def slot_fresh_def Let_def)

lemma slot_fresh_step: "slot_fresh g \<Longrightarrow> slot_fresh (step v e g)"
proof (cases e)
  case (Attach this blank tpl)
  assume "slot_fresh g"
  then show ?thesis
    by (cases v)
       (auto simp: Attach slot_fresh_def connectedCallback_def connectedCallback_ready_def
          split: option.splits)
next
  case (Arrow this k ts)
  assume "slot_fresh g"
  then show ?thesis by (cases k) (auto simp: Arrow slot_fresh_def split: option.splits)
next
  case (Detach this)
  assume "slot_fresh g"
  then show ?thesis
    by (cases v; cases "activeConsoleAppender g")
       (auto simp: Detach slot_fresh_def disconnectedCallback_def Let_def)
qed (auto simp: slot_fresh_def split: option.splits)

lemma slot_fresh_run: "slot_fresh g \<Longrightarrow> slot_fresh (run v evs g)"
  by (induction evs arbitrary: g) (simp_all add: slot_fresh_step)

lemma keydown_ArrowUp_eq: "keydown_ArrowUp v ts this g = navigateHistory v ts this (- 1) g"
  by (simp add: keydown_ArrowUp_def navigateHistory_def split: option.split)

lemma keydown_ArrowDown_eq: "keydown_ArrowDown v ts this g = navigateHistory v ts this 1 g"
  by (simp add: keydown_ArrowDown_def navigateHistory_def split: option.split)

lemma navigateHistory_no_input:
  "inputElement (widgets g this) = None \<Longrightarrow> navigateHistory v ts this d g = g"
  by (simp add: navigateHistory_def)

lemma navigateHistory_inputHistory:
  "inputHistory (widgets (navigateHistory v ts this d g) this) =
     (case inputElement (widgets g this) of
        None \<Rightarrow> inputHistory (widgets g this)
      | Some val \<Rightarrow>
          if d = - 1 \<and> historyIndex (widgets g this) = int (length (inputHistory (widgets g this)))
             \<and> trim val \<noteq> []
             \<and> (inputHistory (widgets g this) = [] \<or> last (inputHistory (widgets g this)) \<noteq> trim val)
          then inputHistory (widgets g this) @ [trim val]
          else inputHistory (widgets g this))"
  by (simp add: navigateHistory_def Let_def push_history_inputHistory split: option.split)

lemma navigateHistory_historyIndex:
  "inputElement (widgets g this) = Some val \<Longrightarrow>
   historyIndex (widgets (navigateHistory v ts this d g) this) =
     (let i = historyIndex (widgets g this) + d;
          n = int (length (inputHistory (widgets (navigateHistory v ts this d g) this)))
      in if i < 0 then 0 else if i > n then n else i)"
  by (simp add: navigateHistory_def Let_def push_history_inputHistory)

lemma navigateHistory_inputElement:
  "inputElement (widgets g this) = Some val \<Longrightarrow>
   inputElement (widgets (navigateHistory v ts this d g) this) =
     (let i = historyIndex (widgets (navigateHistory v ts this d g) this);
          h = inputHistory (widgets (navigateHistory v ts this d g) this)
      in if i = int (length h) then Some []
         else Some (if 0 \<le> i \<and> nat i < length h then h ! nat i else ''undefined''))"
  by (simp add: navigateHistory_def Let_def push_history_inputHistory)

lemma navigateHistory_other:
  "x \<noteq> this \<Longrightarrow>
   inputHistory (widgets (navigateHistory v ts this d g) x) = inputHistory (widgets g x) \<and>
   historyIndex (widgets (navigateHistory v ts this d g) x) = historyIndex (widgets g x) \<and>
   inputElement (widgets (navigateHistory v ts this d g) x) = inputElement (widgets g x)"
  by (simp add: navigateHistory_def Let_def push_history_inputHistory_other split: option.split)

lemma navigateHistory_localStorage:
  "localStorage (navigateHistory v ts this d g) =
     (case inputElement (widgets g this) of
        None \<Rightarrow> localStorage g
      | Some val \<Rightarrow>
          if d = - 1 \<and> historyIndex (widgets g this) = int (length (inputHistory (widgets g this)))
             \<and> trim val \<noteq> [] \<and> setItem_fault g = None
             \<and> (inputHistory (widgets g this) = [] \<or> last (inputHistory (widgets g this)) \<noteq> trim val)
          then (localStorage g)
                 (HISTORY_KEY \<mapsto> HistoryJSON (inputHistory (widgets g this) @ [trim val]))
          else localStorage g)"
  by (cases "setItem_fault g")
     (simp_all add: navigateHistory_def Let_def push_history_def setLocalStorageItem_def
        console_error_def split: option.split)

text \<open>The cursor after one navigation, when the widget has its input field.\<close>

lemma navigateHistory_in_range:
  "inputElement (widgets g this) = Some val \<Longrightarrow>
   cursor_in_range (widgets (navigateHistory v ts this d g) this)"
  by (simp add: cursor_in_range_def navigateHistory_historyIndex Let_def)

lemma navigateHistory_keeps_range:
  "cursor_in_range (widgets g x) \<Longrightarrow> cursor_in_range (widgets (navigateHistory v ts this d g) x)"
proof (cases "x = this")
  case False
  assume "cursor_in_range (widgets g x)"
  with False show ?thesis by (simp add: cursor_in_range_def navigateHistory_other)
next
  case True
  assume r: "cursor_in_range (widgets g x)"
  show ?thesis
  proof (cases "inputElement (widgets g this)")
    case None
    with r True show ?thesis by (simp add: navigateHistory_no_input)
  next
    case (Some val)
    with True show ?thesis by (simp add: navigateHistory_in_range)
  qed
qed

lemma up_step:
  assumes "inputElement (widgets g this) = Some val" and "cursor_in_range (widgets g this)"
  shows "historyIndex (widgets (navigateHistory v ts this (- 1) g) this) =
           max 0 (historyIndex (widgets g this) - 1)"
proof -
  have "length (inputHistory (widgets g this)) \<le>
        length (inputHistory (widgets (navigateHistory v ts this (- 1) g) this))"
    by (simp add: navigateHistory_inputHistory assms(1))
  with assms show ?thesis
    by (simp add: navigateHistory_historyIndex Let_def cursor_in_range_def max_def)
qed

lemma down_step:
  assumes "inputElement (widgets g this) = Some val"
  shows "historyIndex (widgets (navigateHistory v ts this 1 g) this) =
           max 0 (min (int (length (inputHistory (widgets g this))))
                    (historyIndex (widgets g this) + 1))"
    and "inputHistory (widgets (navigateHistory v ts this 1 g) this) =
           inputHistory (widgets g this)"
  using assms
  by (auto simp: navigateHistory_historyIndex navigateHistory_inputHistory Let_def
        max_def min_def)

lemma navigateHistory_keeps_input:
  "inputElement (widgets g this) = Some val \<Longrightarrow>
   inputElement (widgets (navigateHistory v ts this d g) this) \<noteq> None"
  by (simp add: navigateHistory_inputElement Let_def)

lemma ups_cursor:
  "inputElement (widgets g this) \<noteq> None \<Longrightarrow> cursor_in_range (widgets g this) \<Longrightarrow>
   historyIndex (widgets (run v (map (Arrow this Up) tss) g) this) =
     max 0 (historyIndex (widgets g this) - int (length tss))"
proof (induction tss arbitrary: g)
  case Nil
  then show ?case by (simp add: cursor_in_range_def)
next
  case (Cons ts tss)
  from Cons.prems obtain val where val: "inputElement (widgets g this) = Some val" by auto
  let ?g = "navigateHistory v ts this (- 1) g"
  have a: "inputElement (widgets ?g this) \<noteq> None"
    using val by (rule navigateHistory_keeps_input)
  have b: "cursor_in_range (widgets ?g this)"
    using val by (rule navigateHistory_in_range)
  have c: "historyIndex (widgets ?g this) = max 0 (historyIndex (widgets g this) - 1)"
    using val Cons.prems(2) by (rule up_step)
  from Cons.IH [OF a b] c show ?case
    by (simp add: keydown_ArrowUp_eq max_def)
qed

lemma downs_cursor:
  "inputElement (widgets g this) \<noteq> None \<Longrightarrow> cursor_in_range (widgets g this) \<Longrightarrow>
   historyIndex (widgets (run v (map (Arrow this Down) tss) g) this) =
     min (int (length (inputHistory (widgets g this))))
       (historyIndex (widgets g this) + int (length tss)) \<and>
   inputHistory (widgets (run v (map (Arrow this Down) tss) g) this) =
     inputHistory (widgets g this)"
proof (induction tss arbitrary: g)
  case Nil
  then show ?case by (simp add: cursor_in_range_def)
next
  case (Cons ts tss)
  from Cons.prems obtain val where val: "inputElement (widgets g this) = Some val" by auto
  let ?g = "navigateHistory v ts this 1 g"
  have a: "inputElement (widgets ?g this) \<noteq> None"
    using val by (rule navigateHistory_keeps_input)
  have b: "cursor_in_range (widgets ?g this)"
    using val by (rule navigateHistory_in_range)
  note c = down_step [OF val, of v ts]
  from Cons.IH [OF a b] c Cons.prems(2) show ?case
    by (simp add: keydown_ArrowDown_eq max_def min_def cursor_in_range_def)
qed

lemma record_and_echo_inputHistory_other:
  "x \<noteq> this \<Longrightarrow>
   inputHistory (widgets (record_and_echo v tm this input g) x) = inputHistory (widgets g x)"
  by (simp add: record_and_echo_def push_history_inputHistory_other)

lemma processInput_historyIndex [simp]:
  "historyIndex (widgets (fst (processInput v eval tm this input g)) x) =
     historyIndex (widgets g x)"
  by (simp add: processInput_def Let_def split: option.split prod.split outcome.split)

lemma processInput_inputElement [simp]:
  "inputElement (widgets (fst (processInput v eval tm this input g)) x) =
     inputElement (widgets g x)"
  by (simp add: processInput_def Let_def split: option.split prod.split outcome.split)

lemma processInput_inputHistory_other:
  "x \<noteq> this \<Longrightarrow>
   inputHistory (widgets (fst (processInput v eval tm this input g)) x) =
     inputHistory (widgets g x)"
  by (simp add: processInput_def Let_def record_and_echo_inputHistory_other
        split: option.split prod.split outcome.split)

lemma processInput_history_grows:
  "length (inputHistory (widgets g this)) \<le>
   length (inputHistory (widgets (fst (processInput v eval tm this input g)) this))"
  by (cases "trim input = []")
     (simp_all add: processInput_blank processInput_inputHistory record_and_echo_inputHistory)

lemma processInput_keeps_range:
  "cursor_in_range (widgets g x) \<Longrightarrow>
   cursor_in_range (widgets (fst (processInput v eval tm this input g)) x)"
  using processInput_history_grows [of g this v eval tm input]
  by (cases "x = this") (auto simp: cursor_in_range_def processInput_inputHistory_other)

lemma keydown_Enter_keeps_range:
  "cursor_in_range (widgets g x) \<Longrightarrow>
   cursor_in_range (widgets (fst (keydown_Enter v eval tm this g)) x)"
  by (auto simp: keydown_Enter_fst processInput_keeps_range split: option.split)
     (simp add: cursor_in_range_def)

lemma input_edited_keeps_range:
  "cursor_in_range (widgets g x) \<Longrightarrow> cursor_in_range (widgets (input_edited text this g) x)"
  by (auto simp: input_edited_def cursor_in_range_def Let_def split: option.split)

lemma clearConsole_history [simp]:
  "inputHistory (widgets (clearConsole blank ts this g) x) = inputHistory (widgets g x)"
  "historyIndex (widgets (clearConsole blank ts this g) x) = historyIndex (widgets g x)"
  by (simp_all add: clearConsole_def Let_def split: option.split)

lemma connectedCallback_history [simp]:
  "inputHistory (widgets (connectedCallback v blank tpl this g) x) = inputHistory (widgets g x)"
  "historyIndex (widgets (connectedCallback v blank tpl this g) x) = historyIndex (widgets g x)"
  by (cases v; simp add: connectedCallback_def connectedCallback_ready_def
        connectedCallback_load_def flushMessageBuffer_widgets)+

lemma disconnectedCallback_widgets [simp]:
  "widgets (disconnectedCallback v this g) = widgets g"
  by (cases v) (simp_all add: disconnectedCallback_def Let_def)

lemma console_history [simp]:
  "inputHistory (widgets (console v m args ts g) x) = inputHistory (widgets g x)"
  "historyIndex (widgets (console v m args ts g) x) = historyIndex (widgets g x)"
  by (simp_all add: console_eq)

lemma step_keeps_range:
  assumes r: "cursor_in_range (widgets g x)"
  shows "cursor_in_range (widgets (step v e g) x)"
proof (cases e)
  case (Console m args ts)
  with r show ?thesis by (simp add: cursor_in_range_def)
next
  case (Attach this blank tpl)
  with r show ?thesis by (simp add: cursor_in_range_def)
next
  case (Enter this eval tm)
  with r show ?thesis by (simp add: keydown_Enter_keeps_range)
next
  case (Arrow this k ts)
  with r show ?thesis
    by (cases k)
       (simp_all add: keydown_ArrowUp_eq keydown_ArrowDown_eq navigateHistory_keeps_range)
next
  case (Edit this s)
  with r show ?thesis by (simp add: input_edited_keeps_range)
next
  case (Clear this blank ts)
  with r show ?thesis by (simp add: cursor_in_range_def)
next
  case (Hide this dims tm)
  with r show ?thesis by (simp add: cursor_in_range_def)
next
  case (Show this ts)
  with r show ?thesis by (simp add: cursor_in_range_def)
next
  case (Resized this dims tm)
  with r show ?thesis by (simp add: cursor_in_range_def)
next
  case (Bridged this msg ty ts)
  with r show ?thesis by (auto simp: cursor_in_range_def)
next
  case (Detach this)
  with r show ?thesis by simp
qed

lemma run_keeps_range:
  "cursor_in_range (widgets g x) \<Longrightarrow> cursor_in_range (widgets (run v evs g) x)"
  by (induction evs arbitrary: g) (simp_all add: step_keeps_range)


lemma same_but_logsI [simp]:
  "same_but_logs g (g\<lparr>consoleMessageBuffer := b, original_console := oc\<rparr>)"
  by (simp add: same_but_logs_def)

lemma same_but_logs_refl [simp]: "same_but_logs g g"
  by (simp add: same_but_logs_def)

































text \<open>What a submission adds to the display of its widget.\<close>

lemma console_call_displayed:
  assumes "formatConsoleMessage args = Inr s"
  shows "\<exists>w. displayed (widgets (fst (console_call v ty args ts g)) x) =
              map_option (\<lambda>t. t @ w) (displayed (widgets g x))"
proof (cases "v = VirtualConsoleComponentRender \<and>
              (\<exists>f. activeConsoleAppender g = Some f \<and> receiver f = x)")
  case True
  then obtain f where "v = VirtualConsoleComponentRender" "activeConsoleAppender g = Some f"
    "receiver f = x" by blast
  then have "displayed (widgets (fst (console_call v ty args ts g)) x) =
      map_option (\<lambda>t. t @ normalize_newlines (render ts ty s)) (displayed (widgets g x))"
    by (simp add: console_call_def assms Let_def call_appender_def displayed_appendMessage)
  then show ?thesis by (rule exI [of _ "normalize_newlines (render ts ty s)"])
next
  case False
  have "widgets (fst (console_call v ty args ts g)) x = widgets g x"
  proof (cases v)
    case part_000
    then show ?thesis by (simp add: console_call_def assms Let_def)
  next
    case VirtualConsoleComponentRender
    show ?thesis
    proof (cases "activeConsoleAppender g")
      case None
      then show ?thesis
        by (simp add: console_call_def assms Let_def VirtualConsoleComponentRender)
    next
      case (Some f)
      with False VirtualConsoleComponentRender have "receiver f \<noteq> x" by simp
      then show ?thesis
        by (simp add: console_call_def assms Let_def VirtualConsoleComponentRender Some
              call_appender_def)
    qed
  qed
  then have "displayed (widgets (fst (console_call v ty args ts g)) x) =
      map_option (\<lambda>t. t @ []) (displayed (widgets g x))"
    by (simp add: option.map_ident)
  then show ?thesis by (rule exI [of _ "[]"])
qed

lemma setLocalStorageItem_displayed:
  "\<exists>w. (setItem_fault g = None \<longrightarrow> w = []) \<and>
       displayed (widgets (setLocalStorageItem v ts key val g) x) =
         map_option (\<lambda>t. t @ w) (displayed (widgets g x))"
proof (cases "setItem_fault g")
  case None
  then have "displayed (widgets (setLocalStorageItem v ts key val g) x) =
         map_option (\<lambda>t. t @ []) (displayed (widgets g x))"
    by (simp add: setLocalStorageItem_def option.map_ident)
  with None show ?thesis by (intro exI [of _ "[]"] conjI impI refl)
next
  case (Some e)
  from console_call_displayed
         [where args = "[write_error_text, thrown e]" and v = v and ty = "''ERROR''"
            and ts = ts and g = g and x = x, OF format_write_error]
  obtain w where "displayed (widgets (fst (console_call v ''ERROR''
        [write_error_text, thrown e] ts g)) x) = map_option (\<lambda>t. t @ w) (displayed (widgets g x))"
    by blast
  then have "displayed (widgets (setLocalStorageItem v ts key val g) x) =
         map_option (\<lambda>t. t @ w) (displayed (widgets g x))"
    by (simp add: setLocalStorageItem_def Some console_error_def)
  with Some show ?thesis by (intro exI [of _ w]) simp
qed

lemma push_history_displayed:
  "\<exists>w. (setItem_fault g = None \<longrightarrow> w = []) \<and>
       displayed (widgets (push_history v ts this s g) this) =
         map_option (\<lambda>t. t @ w) (displayed (widgets g this))"
proof (cases "inputHistory (widgets g this) = [] \<or> last (inputHistory (widgets g this)) \<noteq> s")
  case True
  define g' where "g' = on_widget this (\<lambda>w. w\<lparr>inputHistory := inputHistory (widgets g this) @ [s]\<rparr>) g"
  have p: "push_history v ts this s g =
      setLocalStorageItem v ts HISTORY_KEY (HistoryJSON (inputHistory (widgets g this) @ [s])) g'"
    using True by (simp add: push_history_def Let_def g'_def)
  have d: "displayed (widgets g' this) = displayed (widgets g this)"
    and f: "setItem_fault g' = setItem_fault g"
    by (simp_all add: g'_def)
  show ?thesis
    using setLocalStorageItem_displayed
            [of g' v ts HISTORY_KEY "HistoryJSON (inputHistory (widgets g this) @ [s])" this]
    unfolding p d f .
next
  case False
  then have "displayed (widgets (push_history v ts this s g) this) =
         map_option (\<lambda>t. t @ []) (displayed (widgets g this))"
    by (simp add: push_history_def Let_def option.map_ident)
  then show ?thesis by (intro exI [of _ "[]"] conjI impI refl)
qed

lemma record_and_echo_displayed:
  "\<exists>w. (setItem_fault g = None \<longrightarrow> w = []) \<and>
       displayed (widgets (record_and_echo v tm this input g) this) =
         map_option
           (\<lambda>t. t @ w @ normalize_newlines (render (tm 1) ''INPUT'' (''> '' @ input)))
           (displayed (widgets g this))"
proof -
  have "\<And>w. displayed (widgets (push_history v (tm 0) this (trim input) g) this) =
         map_option (\<lambda>t. t @ w) (displayed (widgets g this)) \<Longrightarrow>
       displayed (widgets (record_and_echo v tm this input g) this) =
         map_option
           (\<lambda>t. t @ w @ normalize_newlines (render (tm 1) ''INPUT'' (''> '' @ input)))
           (displayed (widgets g this))"
    by (simp add: record_and_echo_def displayed_appendMessage option.map_comp comp_def)
  with push_history_displayed [of g v "tm 0" this "trim input"] show ?thesis
    by (elim exE conjE) (intro exI conjI, assumption)
qed


lemma processInput_Threw_nullish_displayed:
  assumes "trim input \<noteq> []" and "iframeWindow (widgets g this) = Some ctx"
    and "eval ctx (finalCodeToExecute this input g) = (ctx', emitted, Threw None)"
  shows "\<exists>w. (setItem_fault g = None \<longrightarrow> w = []) \<and>
       displayed (widgets (fst (processInput v eval tm this input g)) this) =
         map_option
           (\<lambda>t. t @ w @ normalize_newlines (render (tm 1) ''INPUT'' (''> '' @ input)) @
                concat (map (\<lambda>(msg, ty, ts). normalize_newlines (render ts ty msg)) emitted))
           (displayed (widgets g this))"
proof -
  have "\<And>w. displayed (widgets (record_and_echo v tm this input g) this) =
         map_option
           (\<lambda>t. t @ w @ normalize_newlines (render (tm 1) ''INPUT'' (''> '' @ input)))
           (displayed (widgets g this)) \<Longrightarrow>
       displayed (widgets (fst (processInput v eval tm this input g)) this) =
         map_option
           (\<lambda>t. t @ w @ normalize_newlines (render (tm 1) ''INPUT'' (''> '' @ input)) @
                concat (map (\<lambda>(msg, ty, ts). normalize_newlines (render ts ty msg)) emitted))
           (displayed (widgets g this))"
    by (simp add: processInput_Threw_nullish [where eval = eval and ctx = ctx, OF assms]
          displayed_bridge option.map_comp comp_def)
  with record_and_echo_displayed [of g v tm this input] show ?thesis
    by (elim exE conjE) (intro exI conjI, assumption)
qed



section \<open>The claims\<close>

subsection \<open>C1: a submission commits the candidate exactly when the evaluation succeeds\<close>




subsection \<open>C2: every intercepted call makes one entry, routed or buffered, and is forwarded\<close>




subsection \<open>C3: the buffer is replayed in call order when the widget attaches\<close>

text \<open>
  C3 says that the log calls made while no display is attached are all shown, in call
  order, by the display of the widget that attaches next. Three runs show otherwise. A
  widget is attached and removed, a call is made and a second widget is attached: the
  slot still holds the appender of the removed widget (line 198 never clears it), the
  entry goes to that widget and the second widget shows nothing. A call is made and a
  widget whose template has no \<^verbatim>\<open>#consoleOutput\<close> is attached: the flush empties the buffer
  and the guard of \<^verbatim>\<open>appendMessage\<close> drops the entry. A call with an argument that cannot
  be formatted is made and a widget is attached: the call made no entry and did not
  reach the original function.
\<close>

theorem buffered_entries_lost_counterexample:
  "displayed
     (widgets (run VirtualConsoleComponentRender
                 [Attach 0 0 example_template, Detach 0,
                  Console Log [Value False (Text ''1'') (Str ''1'')] ''12:00:05'',
                  Attach 1 0 example_template] example_world) 1) = Some [] \<and>
   displayed
     (widgets (run VirtualConsoleComponentRender
                 [Attach 0 0 example_template, Detach 0,
                  Console Log [Value False (Text ''1'') (Str ''1'')] ''12:00:05'',
                  Attach 1 0 example_template] example_world) 0) =
     Some (''[12:00:05] [LOG] 1'' @ [CHR 0x0A]) \<and>
   consoleMessageBuffer
     (run VirtualConsoleComponentRender
        [Console Log [Value False (Text ''1'') (Str ''1'')] ''12:00:05''] example_world) =
     [\<lparr>timestamp = ''12:00:05'', type = ''LOG'', message = ''1''\<rparr>] \<and>
   consoleMessageBuffer
     (run VirtualConsoleComponentRender
        [Console Log [Value False (Text ''1'') (Str ''1'')] ''12:00:05'',
         Attach 0 0 bare_template] example_world) = [] \<and>
   displayed
     (widgets (run VirtualConsoleComponentRender
                 [Console Log [Value False (Text ''1'') (Str ''1'')] ''12:00:05'',
                  Attach 0 0 bare_template] example_world) 0) = None \<and>
   displayed
     (widgets (run VirtualConsoleComponentRender
                 [Console Log [hostile] ''12:00:05'', Attach 0 0 example_template]
                 example_world) 0) = Some [] \<and>
   original_console
     (run VirtualConsoleComponentRender
        [Console Log [hostile] ''12:00:05'', Attach 0 0 example_template] example_world) = []"
  by code_simp

text \<open>
  C3, amended. Start with no appender registered (no widget has been attached yet). Log
  calls whose arguments can be formatted are made, a widget whose template has
  \<^verbatim>\<open>#consoleOutput\<close> loads its template and its context, more such calls are made while it
  waits, and then the widget registers its appender and flushes the buffer. Before the
  flush the buffer holds all entries that were pending, those already in it and those of
  the calls, in call order. After the flush the buffer is empty and the widget's display
  is the template's text followed by one line \<^verbatim>\<open>[time] [TYPE] message\<close> for each pending
  entry, in that order, each once. A log call made after that leaves the buffer empty and
  adds its line after them.
\<close>

theorem buffered_entries_replayed_in_order:
  assumes "activeConsoleAppender g = None"
    and "\<forall>c \<in> set before. formattable c"
    and "\<forall>c \<in> set during. formattable c"
    and "formattable (m, args, ts)"
    and "consoleOutput tpl = Some t"
  shows
    "let g1 = console_calls VirtualConsoleComponentRender before g;
         g2 = connectedCallback_load blank tpl this g1;
         g3 = console_calls VirtualConsoleComponentRender during g2;
         g4 = connectedCallback_ready VirtualConsoleComponentRender this g3;
         pending = consoleMessageBuffer g @ map entry_of before @ map entry_of during;
         line = (\<lambda>e. normalize_newlines
                        (''['' @ timestamp e @ ''] ['' @ type e @ ''] '' @ message e @
                         [CHR 0x0A]))
     in consoleMessageBuffer g3 = pending \<and>
        consoleMessageBuffer g4 = [] \<and>
        displayed (widgets g4 this) = Some (normalize_newlines t @ concat (map line pending)) \<and>
        consoleMessageBuffer (console VirtualConsoleComponentRender m args ts g4) = [] \<and>
        displayed (widgets (console VirtualConsoleComponentRender m args ts g4) this) =
          Some (normalize_newlines t @ concat (map line pending) @
                line (entry_of (m, args, ts)))"
proof -
  let ?V = VirtualConsoleComponentRender
  let ?g1 = "console_calls ?V before g"
  let ?g2 = "connectedCallback_load blank tpl this ?g1"
  let ?g3 = "console_calls ?V during ?g2"
  let ?g4 = "connectedCallback_ready ?V this ?g3"
  let ?pending = "consoleMessageBuffer g @ map entry_of before @ map entry_of during"
  let ?line = "\<lambda>e. normalize_newlines
                     (''['' @ timestamp e @ ''] ['' @ type e @ ''] '' @ message e @ [CHR 0x0A])"
  have g1: "?g1 = g\<lparr>consoleMessageBuffer := consoleMessageBuffer g @ map entry_of before,
       original_console := original_console g @ map forwarded before\<rparr>"
    using assms(1,2) by (simp add: console_calls_buffered)
  have slot2: "activeConsoleAppender ?g2 = None"
    using assms(1) by (simp add: g1)
  have g3: "?g3 = ?g2\<lparr>consoleMessageBuffer := consoleMessageBuffer ?g2 @ map entry_of during,
       original_console := original_console ?g2 @ map forwarded during\<rparr>"
    using slot2 assms(3) by (simp add: console_calls_buffered)
  have buf3: "consoleMessageBuffer ?g3 = ?pending"
    by (subst g3) (simp add: g1)
  have area3: "textarea (widgets ?g3 this) = Some t"
    by (subst g3) (simp add: assms(5))
  then have shown3: "displayed (widgets ?g3 this) = Some (normalize_newlines t)"
    by (simp add: displayed_def)
  have shown4: "displayed (widgets ?g4 this) =
      Some (normalize_newlines t @ concat (map ?line ?pending))"
    by (simp only: connectedCallback_ready_displayed buf3 shown3 render_def option.map)
  have slot4: "activeConsoleAppender ?g4 = Some (BoundAppend (allocated ?g3) this)"
    by (rule connectedCallback_ready_registers)
  have live: "console ?V m args ts ?g4 =
      (on_widget this (appendMessage (message (entry_of (m, args, ts))) (tag m) ts) ?g4)
        \<lparr>original_console := original_console ?g4 @ [forwarded (m, args, ts)]\<rparr>"
    using console_routed [OF assms(4) slot4] by simp
  have buf5: "consoleMessageBuffer (console ?V m args ts ?g4) = []"
    by (subst live) simp
  have shown5: "displayed (widgets (console ?V m args ts ?g4) this) =
      Some (normalize_newlines t @ concat (map ?line ?pending) @ ?line (entry_of (m, args, ts)))"
    by (subst live) (simp add: displayed_appendMessage shown4 render_def)
  from buf3 shown4 buf5 shown5 show ?thesis
    by (simp only: Let_def connectedCallback_ready_buffer simp_thms)
qed

text \<open>
  The two example calls before the example widget loads, one more while it loads, and one
  after it is ready.
\<close>

theorem buffered_entries_replayed_in_order_witness:
  "consoleMessageBuffer
     (console_calls VirtualConsoleComponentRender [example_cr_call]
        (connectedCallback_load 0 example_template 0
           (console_calls VirtualConsoleComponentRender example_calls example_world))) =
     [\<lparr>timestamp = ''11:59:58'', type = ''LOG'', message = ''boot''\<rparr>,
      \<lparr>timestamp = ''11:59:59'', type = ''WARN'', message = ''1 [object Object]''\<rparr>,
      \<lparr>timestamp = ''12:00:04'', type = ''ERROR'', message = ''a'' @ [CHR 0x0D] @ ''b''\<rparr>] \<and>
   displayed
     (widgets
        (connectedCallback_ready VirtualConsoleComponentRender 0
           (console_calls VirtualConsoleComponentRender [example_cr_call]
              (connectedCallback_load 0 example_template 0
                 (console_calls VirtualConsoleComponentRender example_calls
                    example_world)))) 0) =
     Some (''[11:59:58] [LOG] boot'' @ [CHR 0x0A] @
           ''[11:59:59] [WARN] 1 [object Object]'' @ [CHR 0x0A] @
           ''[12:00:04] [ERROR] a'' @ [CHR 0x0A] @ ''b'' @ [CHR 0x0A]) \<and>
   consoleMessageBuffer
     (console VirtualConsoleComponentRender Error [circular] ''12:00:06''
        (connectedCallback_ready VirtualConsoleComponentRender 0
           (console_calls VirtualConsoleComponentRender [example_cr_call]
              (connectedCallback_load 0 example_template 0
                 (console_calls VirtualConsoleComponentRender example_calls
                    example_world))))) = [] \<and>
   displayed
     (widgets
        (console VirtualConsoleComponentRender Error [circular] ''12:00:06''
           (connectedCallback_ready VirtualConsoleComponentRender 0
              (console_calls VirtualConsoleComponentRender [example_cr_call]
                 (connectedCallback_load 0 example_template 0
                    (console_calls VirtualConsoleComponentRender example_calls
                       example_world))))) 0) =
     Some (''[11:59:58] [LOG] boot'' @ [CHR 0x0A] @
           ''[11:59:59] [WARN] 1 [object Object]'' @ [CHR 0x0A] @
           ''[12:00:04] [ERROR] a'' @ [CHR 0x0A] @ ''b'' @ [CHR 0x0A] @
           ''[12:00:06] [ERROR] [object Object]'' @ [CHR 0x0A])"
proof -
  have a: "activeConsoleAppender example_world = None" by code_simp
  have fa: "\<forall>c \<in> set example_calls. formattable c" by code_simp
  have fb: "\<forall>c \<in> set [example_cr_call]. formattable c" by code_simp
  have fc: "formattable (Error, [circular], ''12:00:06'')" by code_simp
  have t: "consoleOutput example_template = Some []" by code_simp
  have p: "consoleMessageBuffer example_world @ map entry_of example_calls @
           map entry_of [example_cr_call] =
     [\<lparr>timestamp = ''11:59:58'', type = ''LOG'', message = ''boot''\<rparr>,
      \<lparr>timestamp = ''11:59:59'', type = ''WARN'', message = ''1 [object Object]''\<rparr>,
      \<lparr>timestamp = ''12:00:04'', type = ''ERROR'', message = ''a'' @ [CHR 0x0D] @ ''b''\<rparr>]"
    by code_simp
  have l: "entry_of (Error, [circular], ''12:00:06'') =
     \<lparr>timestamp = ''12:00:06'', type = ''ERROR'', message = ''[object Object]''\<rparr>"
    by code_simp
  from buffered_entries_replayed_in_order
         [OF a fa fb fc t, of 0 0, unfolded Let_def p l]
  show ?thesis by simp
qed

subsection \<open>C4: detaching does not release the widget's own registration\<close>

text \<open>
  C4. The claim is that \<^verbatim>\<open>disconnectedCallback\<close> clears \<open>activeConsoleAppender\<close> exactly
  when the slot holds the appender of the widget being detached. The comparison of line
  198 is made with \<^verbatim>\<open>this.appendMessage.bind(this)\<close>, a function object created for the
  comparison, so it never holds: from a state where no appender is registered, after any
  events of the page the registered appender (if any) is a function object that exists
  already, and \<^verbatim>\<open>disconnectedCallback\<close> on any widget leaves the slot as it is. A newer
  widget's registration is indeed never cleared by an older widget, but neither is the
  widget's own.
\<close>

theorem disconnectedCallback_never_clears_slot:
  assumes "slot_fresh g"
  shows "slot_fresh (run VirtualConsoleComponentRender evs g) \<and>
     activeConsoleAppender
       (disconnectedCallback VirtualConsoleComponentRender this
          (run VirtualConsoleComponentRender evs g)) =
     activeConsoleAppender (run VirtualConsoleComponentRender evs g)"
  using assms by (simp add: slot_fresh_run disconnectedCallback_slot)

text \<open>
  The only widget of the page attaches and is removed again: its appender stays registered,
  and a later log call is written to the removed widget instead of the buffer.
\<close>

theorem disconnectedCallback_never_clears_slot_witness:
  "activeConsoleAppender
     (disconnectedCallback VirtualConsoleComponentRender 0
        (run VirtualConsoleComponentRender [Attach 0 0 example_template] example_world)) =
     Some (BoundAppend 0 0) \<and>
   consoleMessageBuffer
     (console VirtualConsoleComponentRender Log [] ''12:00:03''
        (disconnectedCallback VirtualConsoleComponentRender 0
           (run VirtualConsoleComponentRender [Attach 0 0 example_template] example_world))) = []"
proof -
  have a: "slot_fresh example_world" by code_simp
  have b: "activeConsoleAppender
      (run VirtualConsoleComponentRender [Attach 0 0 example_template] example_world) =
      Some (BoundAppend 0 0)" by code_simp
  have c: "consoleMessageBuffer
     (console VirtualConsoleComponentRender Log [] ''12:00:03''
        (disconnectedCallback VirtualConsoleComponentRender 0
           (run VirtualConsoleComponentRender [Attach 0 0 example_template] example_world))) = []"
    by code_simp
  from disconnectedCallback_never_clears_slot
         [OF a, of "[Attach 0 0 example_template]" 0] b c
  show ?thesis by simp
qed

subsection \<open>C5: an exception does leave processInput\<close>

text \<open>
  C5. The claim is that no input and no value of the evaluation makes \<^verbatim>\<open>processInput\<close>
  throw. The method serialises the result with \<^verbatim>\<open>JSON.stringify\<close> outside its \<^verbatim>\<open>try\<close>
  (line 427), where \<^verbatim>\<open>formatConsoleMessage\<close> guards the same call (lines 67-71). On the
  attached example widget the input \<^verbatim>\<open>a = {}; a.self = a\<close>, whose value is a
  self-referential object, ends the method with the TypeError of the serialisation, after
  the history and the accumulated program have been updated and with no OUTPUT line.
\<close>

theorem processInput_raises_on_circular_result:
  "snd (processInput VirtualConsoleComponentRender example_eval example_clock 0
          ''a = {}; a.self = a'' example_attached) =
     Some (TypeError ''Converting circular structure to JSON'') \<and>
   textarea
     (widgets (fst (processInput VirtualConsoleComponentRender example_eval example_clock 0
                      ''a = {}; a.self = a'' example_attached)) 0) =
     Some (render ''12:00:00'' ''INPUT'' ''> a = {}; a.self = a'') \<and>
   cumulativeExecutedCode
     (widgets (fst (processInput VirtualConsoleComponentRender example_eval example_clock 0
                      ''a = {}; a.self = a'' example_attached)) 0) =
     CHR 0x0A # ''a = {}; a.self = a''"
  by code_simp

subsection \<open>C6: what Clear resets and what it keeps\<close>



subsection \<open>C7: the history records an accepted input once\<close>

text \<open>
  C7. A submission appends its input, trimmed, to \<open>inputHistory\<close> if and only if the
  trimmed input is not empty and is not the last entry of the list; when it appends and
  the store takes the write, the store holds the new list under the history key; and
  submitting the same text again right away appends nothing more. This holds whatever the
  evaluation does, also when the method ends by an exception.
\<close>

theorem processInput_history_append:
  "inputHistory (widgets (fst (processInput v eval tm this input g)) this) =
     (if trim input \<noteq> [] \<and>
         (inputHistory (widgets g this) = [] \<or> last (inputHistory (widgets g this)) \<noteq> trim input)
      then inputHistory (widgets g this) @ [trim input]
      else inputHistory (widgets g this)) \<and>
   (trim input \<noteq> [] \<and> setItem_fault g = None \<and>
      (inputHistory (widgets g this) = [] \<or> last (inputHistory (widgets g this)) \<noteq> trim input)
    \<longrightarrow> localStorage (fst (processInput v eval tm this input g)) HISTORY_KEY =
          Some (HistoryJSON (inputHistory (widgets g this) @ [trim input]))) \<and>
   (trim input \<noteq> [] \<longrightarrow>
      inputHistory
        (widgets (fst (processInput v eval' tm' this input
                         (fst (processInput v eval tm this input g)))) this) =
      inputHistory (widgets (fst (processInput v eval tm this input g)) this))"
proof (cases "trim input = []")
  case True
  then show ?thesis by (simp add: processInput_blank)
next
  case False
  let ?g' = "fst (processInput v eval tm this input g)"
  have h: "inputHistory (widgets ?g' this) =
     (if inputHistory (widgets g this) = [] \<or> last (inputHistory (widgets g this)) \<noteq> trim input
      then inputHistory (widgets g this) @ [trim input] else inputHistory (widgets g this))"
    using False by (simp add: processInput_inputHistory record_and_echo_inputHistory)
  have again: "inputHistory (widgets (fst (processInput v eval' tm' this input ?g')) this) =
      inputHistory (widgets ?g' this)"
    using False h
    by (simp add: processInput_inputHistory [of input v eval' tm' this ?g']
          record_and_echo_inputHistory)
  have store: "setItem_fault g = None \<Longrightarrow>
      inputHistory (widgets g this) = [] \<or> last (inputHistory (widgets g this)) \<noteq> trim input \<Longrightarrow>
      localStorage ?g' HISTORY_KEY =
        Some (HistoryJSON (inputHistory (widgets g this) @ [trim input]))"
    using False by (simp add: processInput_localStorage push_history_localStorage)
  from False h again store show ?thesis by simp
qed

text \<open>
  On the attached example widget, whose history is empty: \<^verbatim>\<open>  let y = 2; \<close> is recorded
  trimmed and persisted, and a second submission of it leaves one occurrence.
\<close>

theorem processInput_history_append_witness:
  "inputHistory
     (widgets (fst (processInput VirtualConsoleComponentRender example_eval example_clock 0
                      ''  let y = 2; '' example_attached)) 0) = [''let y = 2;''] \<and>
   localStorage
     (fst (processInput VirtualConsoleComponentRender example_eval example_clock 0
             ''  let y = 2; '' example_attached)) HISTORY_KEY =
     Some (HistoryJSON [''let y = 2;'']) \<and>
   inputHistory
     (widgets (fst (processInput VirtualConsoleComponentRender example_eval example_clock 0
                      ''  let y = 2; ''
                      (fst (processInput VirtualConsoleComponentRender example_eval
                              example_clock 0 ''  let y = 2; '' example_attached)))) 0) =
     [''let y = 2;'']"
proof -
  have a: "trim ''  let y = 2; '' = ''let y = 2;''" by code_simp
  have b: "inputHistory (widgets example_attached 0) = []" by code_simp
  have c: "setItem_fault example_attached = None" by code_simp
  from processInput_history_append
         [of VirtualConsoleComponentRender example_eval example_clock 0 "''  let y = 2; ''"
            example_attached example_eval example_clock] a b c
  show ?thesis by simp
qed

subsection \<open>C8: the history cursor stays within the list\<close>

text \<open>
  C8 says that under up and down navigation the cursor stays within \<open>[0, N]\<close>, that down
  at or beyond \<open>N\<close> leaves it at \<open>N\<close> with the input cleared, that up past the oldest entry
  clamps at 0, and that with an empty history navigation is a no-op beyond clamping. The
  last part is not what \<^verbatim>\<open>navigateHistory\<close> does: with an empty history and the text
  \<^verbatim>\<open> foo \<close> in the input field, the up arrow pushes \<^verbatim>\<open>foo\<close> to the history, persists the list
  and shows \<^verbatim>\<open>foo\<close> in the field (the draft capture of lines 210-215).
\<close>

theorem navigateHistory_empty_history_counterexample:
  "inputHistory (widgets (input_edited '' foo '' 0 example_attached) 0) = [] \<and>
   historyIndex (widgets (input_edited '' foo '' 0 example_attached) 0) = 0 \<and>
   inputHistory
     (widgets (navigateHistory VirtualConsoleComponentRender ''12:00:04'' 0 (- 1)
                 (input_edited '' foo '' 0 example_attached)) 0) = [''foo''] \<and>
   inputElement
     (widgets (navigateHistory VirtualConsoleComponentRender ''12:00:04'' 0 (- 1)
                 (input_edited '' foo '' 0 example_attached)) 0) = Some ''foo'' \<and>
   localStorage
     (navigateHistory VirtualConsoleComponentRender ''12:00:04'' 0 (- 1)
        (input_edited '' foo '' 0 example_attached)) HISTORY_KEY = Some (HistoryJSON [''foo''])"
  by code_simp

text \<open>
  C8, amended. From a state where a widget's cursor is within \<open>[0, N]\<close>, \<open>N\<close> the length
  of its history, the cursor is within \<open>[0, N]\<close> after every sequence of page events, up and
  down navigations among them; one navigation on a widget with an input field puts the
  cursor within \<open>[0, N]\<close> from any state. Down at or beyond \<open>N\<close> leaves the cursor at \<open>N\<close>,
  clears the input and keeps the history; \<open>k\<close> downs from cursor \<open>c\<close> give \<open>min N (c + k)\<close> and
  keep the history. Up at cursor 0 or below leaves the cursor at 0; \<open>k\<close> ups give
  \<open>max 0 (c - k)\<close>. With an empty history, down, and up on a blank input field, change
  nothing but the input field, which they clear, and the cursor, which they put at 0; up
  on a non-blank input field at cursor 0 appends the trimmed text to the history, persists
  the list when the store takes the write, and shows the text at cursor 0.
\<close>

theorem navigateHistory_cursor_bounds:
  fixes g :: "'c world"
  shows
  "(cursor_in_range (widgets g x) \<longrightarrow> cursor_in_range (widgets (run v evs g) x)) \<and>
   (inputElement (widgets g this) \<noteq> None \<longrightarrow>
      cursor_in_range (widgets (navigateHistory v ts this d g) this)) \<and>
   (inputElement (widgets g this) \<noteq> None \<and>
    int (length (inputHistory (widgets g this))) \<le> historyIndex (widgets g this) \<longrightarrow>
      historyIndex (widgets (navigateHistory v ts this 1 g) this) =
        int (length (inputHistory (widgets g this))) \<and>
      inputElement (widgets (navigateHistory v ts this 1 g) this) = Some [] \<and>
      inputHistory (widgets (navigateHistory v ts this 1 g) this) =
        inputHistory (widgets g this)) \<and>
   (inputElement (widgets g this) \<noteq> None \<and> historyIndex (widgets g this) \<le> 0 \<longrightarrow>
      historyIndex (widgets (navigateHistory v ts this (- 1) g) this) = 0) \<and>
   (inputElement (widgets g this) \<noteq> None \<and> cursor_in_range (widgets g this) \<longrightarrow>
      historyIndex (widgets (run v (map (Arrow this Down) tss) g) this) =
        min (int (length (inputHistory (widgets g this))))
          (historyIndex (widgets g this) + int (length tss)) \<and>
      inputHistory (widgets (run v (map (Arrow this Down) tss) g) this) =
        inputHistory (widgets g this) \<and>
      historyIndex (widgets (run v (map (Arrow this Up) tss) g) this) =
        max 0 (historyIndex (widgets g this) - int (length tss))) \<and>
   (inputHistory (widgets g this) = [] \<and> inputElement (widgets g this) = Some val \<longrightarrow>
      inputHistory (widgets (navigateHistory v ts this 1 g) this) = [] \<and>
      historyIndex (widgets (navigateHistory v ts this 1 g) this) = 0 \<and>
      inputElement (widgets (navigateHistory v ts this 1 g) this) = Some [] \<and>
      localStorage (navigateHistory v ts this 1 g) = localStorage g \<and>
      (trim val = [] \<or> historyIndex (widgets g this) \<noteq> 0 \<longrightarrow>
         inputHistory (widgets (navigateHistory v ts this (- 1) g) this) = [] \<and>
         historyIndex (widgets (navigateHistory v ts this (- 1) g) this) = 0 \<and>
         inputElement (widgets (navigateHistory v ts this (- 1) g) this) = Some [] \<and>
         localStorage (navigateHistory v ts this (- 1) g) = localStorage g) \<and>
      (trim val \<noteq> [] \<and> historyIndex (widgets g this) = 0 \<longrightarrow>
         inputHistory (widgets (navigateHistory v ts this (- 1) g) this) = [trim val] \<and>
         historyIndex (widgets (navigateHistory v ts this (- 1) g) this) = 0 \<and>
         inputElement (widgets (navigateHistory v ts this (- 1) g) this) = Some (trim val) \<and>
         (setItem_fault g = None \<longrightarrow>
            localStorage (navigateHistory v ts this (- 1) g) HISTORY_KEY =
              Some (HistoryJSON [trim val]))))"
proof (intro conjI)
  show "cursor_in_range (widgets g x) \<longrightarrow> cursor_in_range (widgets (run v evs g) x)"
    by (simp add: run_keeps_range)
  show "inputElement (widgets g this) \<noteq> None \<longrightarrow>
      cursor_in_range (widgets (navigateHistory v ts this d g) this)"
    by (auto simp: navigateHistory_in_range)
  show "inputElement (widgets g this) \<noteq> None \<and>
    int (length (inputHistory (widgets g this))) \<le> historyIndex (widgets g this) \<longrightarrow>
      historyIndex (widgets (navigateHistory v ts this 1 g) this) =
        int (length (inputHistory (widgets g this))) \<and>
      inputElement (widgets (navigateHistory v ts this 1 g) this) = Some [] \<and>
      inputHistory (widgets (navigateHistory v ts this 1 g) this) =
        inputHistory (widgets g this)"
    by (auto simp: navigateHistory_historyIndex navigateHistory_inputElement
          navigateHistory_inputHistory Let_def)
  show "inputElement (widgets g this) \<noteq> None \<and> historyIndex (widgets g this) \<le> 0 \<longrightarrow>
      historyIndex (widgets (navigateHistory v ts this (- 1) g) this) = 0"
    by (auto simp: navigateHistory_historyIndex Let_def)
  show "inputElement (widgets g this) \<noteq> None \<and> cursor_in_range (widgets g this) \<longrightarrow>
      historyIndex (widgets (run v (map (Arrow this Down) tss) g) this) =
        min (int (length (inputHistory (widgets g this))))
          (historyIndex (widgets g this) + int (length tss)) \<and>
      inputHistory (widgets (run v (map (Arrow this Down) tss) g) this) =
        inputHistory (widgets g this) \<and>
      historyIndex (widgets (run v (map (Arrow this Up) tss) g) this) =
        max 0 (historyIndex (widgets g this) - int (length tss))"
    using downs_cursor [of g this v tss] ups_cursor [of g this v tss] by blast
  show "inputHistory (widgets g this) = [] \<and> inputElement (widgets g this) = Some val \<longrightarrow>
      inputHistory (widgets (navigateHistory v ts this 1 g) this) = [] \<and>
      historyIndex (widgets (navigateHistory v ts this 1 g) this) = 0 \<and>
      inputElement (widgets (navigateHistory v ts this 1 g) this) = Some [] \<and>
      localStorage (navigateHistory v ts this 1 g) = localStorage g \<and>
      (trim val = [] \<or> historyIndex (widgets g this) \<noteq> 0 \<longrightarrow>
         inputHistory (widgets (navigateHistory v ts this (- 1) g) this) = [] \<and>
         historyIndex (widgets (navigateHistory v ts this (- 1) g) this) = 0 \<and>
         inputElement (widgets (navigateHistory v ts this (- 1) g) this) = Some [] \<and>
         localStorage (navigateHistory v ts this (- 1) g) = localStorage g) \<and>
      (trim val \<noteq> [] \<and> historyIndex (widgets g this) = 0 \<longrightarrow>
         inputHistory (widgets (navigateHistory v ts this (- 1) g) this) = [trim val] \<and>
         historyIndex (widgets (navigateHistory v ts this (- 1) g) this) = 0 \<and>
         inputElement (widgets (navigateHistory v ts this (- 1) g) this) = Some (trim val) \<and>
         (setItem_fault g = None \<longrightarrow>
            localStorage (navigateHistory v ts this (- 1) g) HISTORY_KEY =
              Some (HistoryJSON [trim val])))"
    by (auto simp: navigateHistory_historyIndex navigateHistory_inputElement
          navigateHistory_inputHistory navigateHistory_localStorage Let_def)
qed

text \<open>
  After \<^verbatim>\<open>let y = 2;\<close> was submitted the cursor is at \<open>N = 1\<close>: six downs leave it there with
  the input cleared, three ups put it at 0.
\<close>

theorem navigateHistory_cursor_bounds_witness:
  "historyIndex (widgets example_after_first 0) = 1 \<and>
   historyIndex
     (widgets (run VirtualConsoleComponentRender
                 (map (Arrow 0 Down) (replicate 6 ''12:00:05'')) example_after_first) 0) = 1 \<and>
   historyIndex
     (widgets (run VirtualConsoleComponentRender
                 (map (Arrow 0 Up) (replicate 3 ''12:00:05'')) example_after_first) 0) = 0 \<and>
   inputElement
     (widgets (navigateHistory VirtualConsoleComponentRender ''12:00:05'' 0 1
                 example_after_first) 0) = Some []"
proof -
  have a: "inputElement (widgets example_after_first 0) \<noteq> None" by code_simp
  have b: "cursor_in_range (widgets example_after_first 0)" by code_simp
  have c: "historyIndex (widgets example_after_first 0) = 1" by code_simp
  have d: "inputHistory (widgets example_after_first 0) = [''let y = 2;'']" by code_simp
  from navigateHistory_cursor_bounds
         [of example_after_first 0 VirtualConsoleComponentRender "[]" 0 "''12:00:05''" 1
            "replicate 6 ''12:00:05''" "[]"]
       navigateHistory_cursor_bounds
         [of example_after_first 0 VirtualConsoleComponentRender "[]" 0 "''12:00:05''" 1
            "replicate 3 ''12:00:05''" "[]"]
       a b c d
  show ?thesis by simp
qed

subsection \<open>C9: a failed submission also gets a result marker\<close>




subsection \<open>C10: in part_000 a log call after the flush stays in the buffer until the next attach\<close>




end
